theory Spec2Isabelle
  imports Main
begin

section \<open>Auction bidding engine: data model\<close>

text \<open>
  The embedding follows \<^verbatim>\<open>backend/app\<close>: the SQLAlchemy models under \<^verbatim>\<open>models/\<close>, the
  queries and writes under \<^verbatim>\<open>repositories/\<close>, and the request handlers under
  \<^verbatim>\<open>routers/v1/\<close>. Conventions:
  \<^item> a \<^verbatim>\<open>datetime\<close> is the number of microseconds (the resolution of Python's
    \<^verbatim>\<open>datetime\<close>) since \<^verbatim>\<open>datetime.min\<close>, between 0 and \<open>datetime_max\<close>; a \<^verbatim>\<open>timedelta\<close> is a
    difference of two; adding a \<^verbatim>\<open>timedelta\<close> to a \<^verbatim>\<open>datetime\<close> raises \<^verbatim>\<open>OverflowError\<close> when the
    sum leaves that range;
  \<^item> Python's \<^verbatim>\<open>int\<close> is \<open>int\<close>;
  \<^item> a table is the list of its rows in stored order; a session object is the row with its
    primary key, and \<^verbatim>\<open>db.commit()\<close> writes the object's columns to the rows with that key;
  \<^item> every handler takes the store and returns the store it leaves behind, also when it
    raises: what was committed before the \<^verbatim>\<open>raise\<close> stays committed;
  \<^item> an \<^verbatim>\<open>HTTPException\<close> is a value \<open>Inl\<close>; its detail text is a tag carrying the numbers the
    text is formatted from; an exception that no handler catches is the answer 500 with the
    name of the exception;
  \<^item> \<open>place_bid\<close> takes every reading of the clock it makes as a parameter of its own
    (\<open>place_bid_clock\<close>), since the end of the auction can pass between two of them;
    \<open>cancel_bid\<close> and the administrator's update take the readings of one request as one
    instant \<open>now\<close>;
  \<^item> columns that no handler modelled here reads (\<^verbatim>\<open>auctionName\<close>, \<^verbatim>\<open>productID\<close>, the
    auction's \<^verbatim>\<open>createdAt\<close>, names and password of an account, the text of a notification,
    the amount of a payment) are left out, and so are the display strings of a response
    (\<^verbatim>\<open>format_currency\<close>, \<^verbatim>\<open>format_time_remaining\<close>, \<^verbatim>\<open>format_time_ago\<close>): a response
    carries the raw values.
\<close>

type_synonym datetime = int
type_synonym timedelta = int

text \<open>
  \<^verbatim>\<open>datetime.max\<close>, 9999-12-31 23:59:59.999999: 3652059 days after \<^verbatim>\<open>datetime.min\<close>, less one
  microsecond.
\<close>

definition datetime_max :: datetime where
  "datetime_max = 3652059 * 86400000000 - 1"

text \<open>\<^verbatim>\<open>datetime + timedelta\<close>; \<open>None\<close> is the \<^verbatim>\<open>OverflowError\<close> (date value out of range).\<close>

definition datetime_add :: "datetime \<Rightarrow> timedelta \<Rightarrow> datetime option" where
  "datetime_add t delta =
     (if t + delta < 0 \<or> datetime_max < t + delta then None else Some (t + delta))"

definition timedelta_minutes :: "int \<Rightarrow> timedelta" where
  "timedelta_minutes n = n * 60000000"

definition timedelta_hours :: "int \<Rightarrow> timedelta" where
  "timedelta_hours n = n * 3600000000"

text \<open>\<^verbatim>\<open>timedelta.days\<close>: whole days, rounded towards minus infinity.\<close>

definition timedelta_days :: "timedelta \<Rightarrow> int" where
  "timedelta_days d = d div 86400000000"

subsection \<open>models/enums.py\<close>

datatype AuctionStatus = DRAFT | SCHEDULED | ONGOING | COMPLETED | CANCELLED

text \<open>The bid status \<^verbatim>\<open>CANCELLED\<close> is \<open>BID_CANCELLED\<close>, apart from the auction status.\<close>

datatype BidStatus = ACTIVE | OUTBID | WINNING | WON | LOST | BID_CANCELLED

datatype PaymentStatus =
  PAYMENT_PENDING | PAYMENT_PROCESSING | PAYMENT_COMPLETED | PAYMENT_FAILED
  | PAYMENT_REFUNDED | PAYMENT_CANCELLED

datatype PaymentType = DEPOSIT | FINAL_PAYMENT

datatype NotificationType = BID_OUTBID | BID_WON | BID_LOST

text \<open>\<^verbatim>\<open>str(auction.auctionStatus)\<close> of a member of \<^verbatim>\<open>class AuctionStatus(str, Enum)\<close>.\<close>

fun str_AuctionStatus :: "AuctionStatus \<Rightarrow> string" where
  "str_AuctionStatus DRAFT = ''AuctionStatus.DRAFT''"
| "str_AuctionStatus SCHEDULED = ''AuctionStatus.SCHEDULED''"
| "str_AuctionStatus ONGOING = ''AuctionStatus.ONGOING''"
| "str_AuctionStatus COMPLETED = ''AuctionStatus.COMPLETED''"
| "str_AuctionStatus CANCELLED = ''AuctionStatus.CANCELLED''"

subsection \<open>models/ and schemas/\<close>

record Auction =
  auctionID :: int
  updatedAt :: "datetime option"
  startDate :: datetime
  endDate :: datetime
  priceStep :: int
  auctionStatus :: AuctionStatus
  bidWinnerID :: "int option"

text \<open>
  The columns of \<^verbatim>\<open>models.Bid\<close>; \<open>bid_auctionID\<close> is its \<^verbatim>\<open>auctionID\<close> (a record field
  name is global).
\<close>

record Bid =
  bidID :: int
  bid_auctionID :: int
  userID :: int
  bidPrice :: int
  bidStatus :: BidStatus
  createdAt :: datetime

record Payment =
  paymentID :: int
  payment_auctionID :: int
  payment_userID :: int
  paymentType :: PaymentType
  paymentStatus :: PaymentStatus

record Account =
  accountID :: int
  username :: string
  email :: string

record Notification =
  notification_userID :: int
  notification_auctionID :: int
  notificationType :: NotificationType
  notification_createdAt :: datetime

text \<open>\<^verbatim>\<open>schemas.BidCreate\<close>: the body of a bid request.\<close>

record BidCreate =
  create_auctionID :: int
  create_bidPrice :: int

text \<open>
  \<^verbatim>\<open>schemas.AuctionUpdate\<close>: every field is optional, and \<^verbatim>\<open>dict(exclude_unset=True)\<close> keeps
  the fields the caller set. \<open>None\<close> is a field that was not set.
\<close>

record AuctionUpdate =
  update_startDate :: "datetime option"
  update_endDate :: "datetime option"
  update_priceStep :: "int option"
  update_auctionStatus :: "AuctionStatus option"
  update_bidWinnerID :: "int option"

definition AuctionUpdate_empty :: AuctionUpdate where
  "AuctionUpdate_empty =
     \<lparr>update_startDate = None, update_endDate = None, update_priceStep = None,
      update_auctionStatus = None, update_bidWinnerID = None\<rparr>"

text \<open>The store: one list of rows per table.\<close>

record db =
  auctions :: "Auction list"
  bids :: "Bid list"
  payments :: "Payment list"
  accounts :: "Account list"
  notifications :: "Notification list"

subsection \<open>Errors\<close>

text \<open>The messages of \<^verbatim>\<open>validate_price\<close> and \<^verbatim>\<open>validate_date_range\<close>, with their numbers.\<close>

datatype price_error = Price_must_be_at_least int | Price_must_not_exceed int

datatype date_error =
  End_date_must_be_after_start_date
  | Duration_must_be_at_least_hours int
  | Duration_must_not_exceed_days int

text \<open>The exceptions that leave a handler uncaught.\<close>

datatype python_exception =
  OverflowError | AttributeError | PendingRollbackError | ObjectDeletedError

text \<open>The details of the handlers' \<^verbatim>\<open>HTTPException\<close>s.\<close>

datatype detail =
  Auction_not_found
  | Auction_not_currently_active datetime
  | Auction_not_accepting_bids AuctionStatus
  | Deposit_required
  | Bid_must_be_at_least int
  | Bid_not_found
  | Only_cancel_own_bids
  | Bid_is_not_active BidStatus
  | Cannot_cancel_after_end
  | Cannot_cancel_while_leading
  | Failed_to_cancel_bid
  | Failed_to_update_auction
  | Cannot_update_active_auction
  | Invalid_dates date_error
  | Invalid_price price_error
  | Unhandled_exception python_exception

datatype HTTPException = HTTPException (status_code: nat) (detail: detail)

section \<open>Queries\<close>

text \<open>\<^verbatim>\<open>Query.first()\<close>: the first row of the result, or \<^verbatim>\<open>None\<close>.\<close>

fun first :: "'a list \<Rightarrow> 'a option" where
  "first [] = None"
| "first (x # xs) = Some x"

text \<open>
  \<^verbatim>\<open>order_by(models.Bid.bidPrice.desc())\<close>. The query names no second key, and SQL leaves
  the order of rows with equal prices to the engine; the model keeps them in stored order
  (a stable sort).
\<close>

definition order_by_bidPrice_desc :: "Bid list \<Rightarrow> Bid list" where
  "order_by_bidPrice_desc rows = sort_key (\<lambda>b. - bidPrice b) rows"

definition get_bid :: "db \<Rightarrow> int \<Rightarrow> Bid option" where
  "get_bid d bid_id = first (filter (\<lambda>b. bidID b = bid_id) (bids d))"

definition get_current_highest_bid :: "db \<Rightarrow> int \<Rightarrow> Bid option" where
  "get_current_highest_bid d auction_id =
     first (order_by_bidPrice_desc
       (filter (\<lambda>b. bid_auctionID b = auction_id \<and> bidStatus b \<in> set [ACTIVE, WINNING, WON])
          (bids d)))"

definition get_account_by_id :: "db \<Rightarrow> int \<Rightarrow> Account option" where
  "get_account_by_id d account_id = first (filter (\<lambda>a. accountID a = account_id) (accounts d))"

section \<open>repositories/auction.py\<close>

text \<open>Writing a session object back: the rows with its primary key take its columns.\<close>

definition commit_auction :: "Auction \<Rightarrow> db \<Rightarrow> db" where
  "commit_auction a d =
     d\<lparr>auctions := map (\<lambda>r. if auctionID r = auctionID a then a else r) (auctions d)\<rparr>"

text \<open>The rows the winner query filters: the \<^verbatim>\<open>ACTIVE\<close> bids of the auction.\<close>

definition active_bids :: "db \<Rightarrow> int \<Rightarrow> Bid list" where
  "active_bids d auction_id =
     filter (\<lambda>b. bid_auctionID b = auction_id \<and> bidStatus b = ACTIVE) (bids d)"

text \<open>
  The winner's row becomes \<^verbatim>\<open>WINNING\<close>; the bulk \<^verbatim>\<open>update\<close> sets the other \<^verbatim>\<open>ACTIVE\<close> rows of
  the auction to \<^verbatim>\<open>LOST\<close>.
\<close>

definition mark_winner :: "int \<Rightarrow> Bid \<Rightarrow> Bid list \<Rightarrow> Bid list" where
  "mark_winner auction_id highest_bid rows =
     map (\<lambda>b. if bidID b = bidID highest_bid then b\<lparr>bidStatus := WINNING\<rparr>
               else if bid_auctionID b = auction_id \<and> bidStatus b = ACTIVE
                    then b\<lparr>bidStatus := LOST\<rparr>
               else b) rows"

text \<open>
  \<^verbatim>\<open>check_and_update_status\<close>: the two \<^verbatim>\<open>if\<close>s run one after the other on the same object,
  and the object and the bids are committed when either changed something.
\<close>

definition check_and_update_status :: "db \<Rightarrow> Auction option \<Rightarrow> datetime \<Rightarrow> Auction option \<times> db" where
  "check_and_update_status d auction now =
     (case auction of
        None \<Rightarrow> (None, d)
      | Some a0 \<Rightarrow>
          let started = (auctionStatus a0 = SCHEDULED \<and> now \<ge> startDate a0);
              a1 = (if started then a0\<lparr>auctionStatus := ONGOING\<rparr> else a0);
              ended = (auctionStatus a1 = ONGOING \<and> now \<ge> endDate a1)
          in if ended then
               (let a2 = a1\<lparr>auctionStatus := COMPLETED\<rparr>;
                    highest_bid = first (order_by_bidPrice_desc (active_bids d (auctionID a2)))
                in case highest_bid of
                     None \<Rightarrow> (Some a2, commit_auction a2 d)
                   | Some hb \<Rightarrow>
                       (let a3 = a2\<lparr>bidWinnerID := Some (userID hb)\<rparr>
                        in (Some a3,
                            commit_auction a3 (d\<lparr>bids := mark_winner (auctionID a3) hb (bids d)\<rparr>))))
             else if started then (Some a1, commit_auction a1 d)
             else (Some a1, d))"

definition get_auction :: "db \<Rightarrow> int \<Rightarrow> datetime \<Rightarrow> Auction option \<times> db" where
  "get_auction d auction_id now =
     check_and_update_status d (first (filter (\<lambda>a. auctionID a = auction_id) (auctions d))) now"

text \<open>The \<^verbatim>\<open>setattr\<close> loop over the fields that were set.\<close>

definition set_fields :: "AuctionUpdate \<Rightarrow> Auction \<Rightarrow> Auction" where
  "set_fields u a =
     (let a = (case update_startDate u of None \<Rightarrow> a | Some v \<Rightarrow> a\<lparr>startDate := v\<rparr>);
          a = (case update_endDate u of None \<Rightarrow> a | Some v \<Rightarrow> a\<lparr>endDate := v\<rparr>);
          a = (case update_priceStep u of None \<Rightarrow> a | Some v \<Rightarrow> a\<lparr>priceStep := v\<rparr>);
          a = (case update_auctionStatus u of None \<Rightarrow> a | Some v \<Rightarrow> a\<lparr>auctionStatus := v\<rparr>);
          a = (case update_bidWinnerID u of None \<Rightarrow> a | Some v \<Rightarrow> a\<lparr>bidWinnerID := Some v\<rparr>)
      in a)"

text \<open>
  \<^verbatim>\<open>update_auction\<close> reads the clock three times: in the fetch (\<^verbatim>\<open>get_auction\<close>), for
  \<^verbatim>\<open>updatedAt\<close>, and in the last \<^verbatim>\<open>check_and_update_status\<close>.
\<close>

definition repositories_update_auction ::
  "db \<Rightarrow> int \<Rightarrow> AuctionUpdate \<Rightarrow> datetime \<Rightarrow> datetime \<Rightarrow> datetime \<Rightarrow> Auction option \<times> db" where
  "repositories_update_auction d auction_id auction_update fetched stamped checked =
     (case get_auction d auction_id fetched of
        (None, d1) \<Rightarrow> (None, d1)
      | (Some db_auction, d1) \<Rightarrow>
          (let a = (set_fields auction_update db_auction)\<lparr>updatedAt := Some stamped\<rparr>
           in check_and_update_status (commit_auction a d1) (Some a) checked))"

section \<open>repositories/bid.py\<close>

text \<open>The key the database gives a new row: one above the largest stored.\<close>

definition next_bidID :: "db \<Rightarrow> int" where
  "next_bidID d = fold max (map bidID (bids d)) 0 + 1"

definition create_bid :: "db \<Rightarrow> BidCreate \<Rightarrow> int \<Rightarrow> datetime \<Rightarrow> Bid \<times> db" where
  "create_bid d bid user_id now =
     (let db_bid = \<lparr>bidID = next_bidID d, bid_auctionID = create_auctionID bid,
                     userID = user_id, bidPrice = create_bidPrice bid, bidStatus = ACTIVE,
                     createdAt = now\<rparr>
      in (db_bid, d\<lparr>bids := bids d @ [db_bid]\<rparr>))"

definition repositories_cancel_bid :: "db \<Rightarrow> int \<Rightarrow> int \<Rightarrow> bool \<times> db" where
  "repositories_cancel_bid d bid_id user_id =
     (case get_bid d bid_id of
        None \<Rightarrow> (False, d)
      | Some db_bid \<Rightarrow>
          if userID db_bid \<noteq> user_id then (False, d)
          else (True, d\<lparr>bids := map (\<lambda>b. if bidID b = bidID db_bid
                                           then b\<lparr>bidStatus := BID_CANCELLED\<rparr> else b) (bids d)\<rparr>))"

section \<open>utils/validators.py\<close>

text \<open>
  \<^verbatim>\<open>validate_price\<close>: the upper bound is tested only when \<^verbatim>\<open>max_price\<close> is truthy (neither
  \<^verbatim>\<open>None\<close> nor 0). The result is \<^verbatim>\<open>(is_valid, error_message)\<close>.
\<close>

definition validate_price :: "int \<Rightarrow> int \<Rightarrow> int option \<Rightarrow> bool \<times> price_error option" where
  "validate_price price min_price max_price =
     (if price < min_price then (False, Some (Price_must_be_at_least min_price))
      else case max_price of
             None \<Rightarrow> (True, None)
           | Some m \<Rightarrow> if m \<noteq> 0 \<and> price > m then (False, Some (Price_must_not_exceed m))
                       else (True, None))"

text \<open>
  \<^verbatim>\<open>validate_date_range\<close> as the auction update calls it, with both bounds given;
  \<^verbatim>\<open>duration.total_seconds() < min_duration_hours * 3600\<close> compares the same quantities in
  microseconds.
\<close>

definition validate_date_range ::
  "datetime \<Rightarrow> datetime \<Rightarrow> int \<Rightarrow> int \<Rightarrow> bool \<times> date_error option" where
  "validate_date_range start_date end_date min_duration_hours max_duration_days =
     (if end_date \<le> start_date then (False, Some End_date_must_be_after_start_date)
      else let duration = end_date - start_date
           in if min_duration_hours \<noteq> 0 \<and> duration < timedelta_hours min_duration_hours
              then (False, Some (Duration_must_be_at_least_hours min_duration_hours))
              else if max_duration_days \<noteq> 0 \<and> timedelta_days duration > max_duration_days
              then (False, Some (Duration_must_not_exceed_days max_duration_days))
              else (True, None))"

section \<open>repositories/notification.py\<close>

definition create_notification :: "db \<Rightarrow> Notification \<Rightarrow> db" where
  "create_notification d n = d\<lparr>notifications := notifications d @ [n]\<rparr>"

section \<open>routers/v1/bids.py: place\_bid\<close>

text \<open>
  The calls inside the \<^verbatim>\<open>try\<close> block that leave the process or go through the session, and
  so may raise, and what such a call does in one run of the handler. A call that raises
  out of a flush or a commit of the session (a database error) leaves the transaction of
  the session failed: until \<^verbatim>\<open>db.rollback()\<close>, which the handler never calls, every later load
  through the session raises \<^verbatim>\<open>PendingRollbackError\<close>.
\<close>

datatype step =
  Get_bids_by_auction | Broadcast | Get_account_by_id | Create_notification | Send_email

datatype outcome = Returns | Raises | Raises_in_session

fun uses_session :: "step \<Rightarrow> bool" where
  "uses_session Get_bids_by_auction = True"
| "uses_session Broadcast = False"
| "uses_session Get_account_by_id = True"
| "uses_session Create_notification = True"
| "uses_session Send_email = False"

definition session_fails :: "(step \<Rightarrow> outcome) \<Rightarrow> step \<Rightarrow> bool" where
  "session_fails outcomes s \<longleftrightarrow> uses_session s \<and> outcomes s = Raises_in_session"

text \<open>
  The \<^verbatim>\<open>try\<close> block with its \<^verbatim>\<open>except Exception\<close>, which prints the exception and goes on. The
  result is the store the block leaves, and whether it leaves the session failed. A
  notification that was created before a later call raised stays created; one whose
  commit raised is not stored.
\<close>

definition send_notifications ::
  "(step \<Rightarrow> outcome) \<Rightarrow> db \<Rightarrow> datetime \<Rightarrow> Account \<Rightarrow> BidCreate \<Rightarrow> Bid option \<Rightarrow> db \<times> bool" where
  "send_notifications outcomes d now current_user bid previous_highest_bid =
     (if outcomes Get_bids_by_auction \<noteq> Returns
      then (d, session_fails outcomes Get_bids_by_auction)
      else if outcomes Broadcast \<noteq> Returns then (d, session_fails outcomes Broadcast)
      else case previous_highest_bid of
             None \<Rightarrow> (d, False)
           | Some p \<Rightarrow>
               if userID p = accountID current_user then (d, False)
               else if outcomes Get_account_by_id \<noteq> Returns
               then (d, session_fails outcomes Get_account_by_id)
               else case get_account_by_id d (userID p) of
                      None \<Rightarrow> (d, False)
                    | Some outbid_user \<Rightarrow>
                        if outcomes Create_notification \<noteq> Returns
                        then (d, session_fails outcomes Create_notification)
                        else (create_notification d
                                \<lparr>notification_userID = userID p,
                                 notification_auctionID = create_auctionID bid,
                                 notificationType = BID_OUTBID,
                                 notification_createdAt = now\<rparr>,
                              session_fails outcomes Send_email))"

text \<open>
  The deposit query and the minimum the handler computes (its locals \<^verbatim>\<open>deposit_payment\<close>
  and \<^verbatim>\<open>min_bid_amount\<close>).
\<close>

definition deposit_payment :: "db \<Rightarrow> int \<Rightarrow> int \<Rightarrow> Payment option" where
  "deposit_payment d auction_id user_id =
     first (filter (\<lambda>p. payment_auctionID p = auction_id \<and> payment_userID p = user_id
                          \<and> paymentType p = DEPOSIT \<and> paymentStatus p = PAYMENT_COMPLETED)
              (payments d))"

definition min_bid_amount :: "Auction \<Rightarrow> Bid option \<Rightarrow> int" where
  "min_bid_amount auction previous_highest_bid =
     (case previous_highest_bid of
        None \<Rightarrow> priceStep auction
      | Some p \<Rightarrow> bidPrice p + priceStep auction)"

text \<open>
  The readings of the clock in one run of \<open>place_bid\<close>, in the order the handler makes them:
  in the fetch of the auction (\<^verbatim>\<open>get_auction\<close>, line 43), \<^verbatim>\<open>current_time\<close> (line 51), the
  \<^verbatim>\<open>createdAt\<close> of \<^verbatim>\<open>create_bid\<close>, the three readings of \<^verbatim>\<open>update_auction\<close> when the end is
  extended, and the \<^verbatim>\<open>createdAt\<close> of the outbid notification.
\<close>

record place_bid_clock =
  fetch_time :: datetime
  current_time :: datetime
  create_time :: datetime
  update_fetch_time :: datetime
  update_time :: datetime
  update_check_time :: datetime
  notification_time :: datetime

text \<open>The \<^verbatim>\<open>data\<close> of the success response, raw values only.\<close>

record BidPlaced =
  data_bid_id :: int
  data_auction_id :: int
  data_bid_price_raw :: int
  data_bid_status :: BidStatus
  data_is_leading :: bool
  data_auction_extended :: bool

text \<open>
  \<open>place_bid\<close> in three parts. Lines 118 to 195: the notifications and the \<^verbatim>\<open>return\<close>. The
  commits before it have expired the attributes of \<^verbatim>\<open>db_bid\<close>, so the \<^verbatim>\<open>return\<close> loads its row
  again: that raises when the session is failed, and it reads the status the row has by
  then. \<^verbatim>\<open>auction.endDate\<close> raises \<^verbatim>\<open>AttributeError\<close> when \<^verbatim>\<open>update_auction\<close> returned \<^verbatim>\<open>None\<close>.
\<close>

definition notify_and_respond ::
  "(step \<Rightarrow> outcome) \<Rightarrow> db \<Rightarrow> place_bid_clock \<Rightarrow> Account \<Rightarrow> BidCreate \<Rightarrow> Bid option
     \<Rightarrow> Bid \<Rightarrow> bool \<Rightarrow> Auction option \<Rightarrow> (HTTPException + BidPlaced) \<times> db" where
  "notify_and_respond outcomes d3 clock current_user bid previous_highest_bid db_bid extended
       auction =
     (let (d4, session_failed) =
            send_notifications outcomes d3 (notification_time clock) current_user bid
              previous_highest_bid
      in if session_failed
         then (Inl (HTTPException 500 (Unhandled_exception PendingRollbackError)), d4)
         else case get_bid d4 (bidID db_bid) of
                None \<Rightarrow> (Inl (HTTPException 500 (Unhandled_exception ObjectDeletedError)), d4)
              | Some row \<Rightarrow>
                  (case auction of
                     None \<Rightarrow> (Inl (HTTPException 500 (Unhandled_exception AttributeError)), d4)
                   | Some a \<Rightarrow>
                       (Inr \<lparr>data_bid_id = bidID row, data_auction_id = bid_auctionID row,
                             data_bid_price_raw = bidPrice row, data_bid_status = bidStatus row,
                             data_is_leading = True, data_auction_extended = extended\<rparr>, d4)))"

text \<open>
  Lines 100 to 116: the bid is created, and the end is extended when at most 5 minutes
  remained at \<^verbatim>\<open>current_time\<close>. The sum \<^verbatim>\<open>auction.endDate + timedelta(minutes=5)\<close> is computed
  after the bid is committed.
\<close>

definition commit_bid ::
  "(step \<Rightarrow> outcome) \<Rightarrow> db \<Rightarrow> place_bid_clock \<Rightarrow> Account \<Rightarrow> BidCreate \<Rightarrow> Auction \<Rightarrow> Bid option
     \<Rightarrow> (HTTPException + BidPlaced) \<times> db" where
  "commit_bid outcomes d1 clock current_user bid auction previous_highest_bid =
     (let (db_bid, d2) = create_bid d1 bid (accountID current_user) (create_time clock);
          time_remaining = endDate auction - current_time clock
      in if time_remaining \<le> timedelta_minutes 5
         then (case datetime_add (endDate auction) (timedelta_minutes 5) of
                 None \<Rightarrow> (Inl (HTTPException 500 (Unhandled_exception OverflowError)), d2)
               | Some new_end_date \<Rightarrow>
                   (let (updated_auction, d3) =
                          repositories_update_auction d2 (create_auctionID bid)
                            (AuctionUpdate_empty\<lparr>update_endDate := Some new_end_date\<rparr>)
                            (update_fetch_time clock) (update_time clock)
                            (update_check_time clock)
                    in notify_and_respond outcomes d3 clock current_user bid
                         previous_highest_bid db_bid True updated_auction))
         else notify_and_respond outcomes d2 clock current_user bid previous_highest_bid
                db_bid False (Some auction))"

text \<open>Lines 42 to 98: the fetch and the checks.\<close>

definition place_bid ::
  "(step \<Rightarrow> outcome) \<Rightarrow> db \<Rightarrow> place_bid_clock \<Rightarrow> Account \<Rightarrow> BidCreate
     \<Rightarrow> (HTTPException + BidPlaced) \<times> db" where
  "place_bid outcomes d clock current_user bid =
     (case get_auction d (create_auctionID bid) (fetch_time clock) of
        (None, d1) \<Rightarrow> (Inl (HTTPException 404 Auction_not_found), d1)
      | (Some auction, d1) \<Rightarrow>
          if \<not> (startDate auction \<le> current_time clock \<and> current_time clock \<le> endDate auction)
          then (Inl (HTTPException 400 (Auction_not_currently_active (startDate auction))), d1)
          else if str_AuctionStatus (auctionStatus auction)
                    \<notin> set [''active'', ''pending'', ''ONGOING'', ''ongoing'', ''AuctionStatus.ONGOING'']
          then (Inl (HTTPException 400 (Auction_not_accepting_bids (auctionStatus auction))), d1)
          else if deposit_payment d1 (create_auctionID bid) (accountID current_user) = None
          then (Inl (HTTPException 400 Deposit_required), d1)
          else
            (let previous_highest_bid = get_current_highest_bid d1 (create_auctionID bid);
                 min_bid = min_bid_amount auction previous_highest_bid
             in if \<not> fst (validate_price (create_bidPrice bid) min_bid (Some 999999999))
                then (Inl (HTTPException 400 (Bid_must_be_at_least min_bid)), d1)
                else commit_bid outcomes d1 clock current_user bid auction
                       previous_highest_bid))"

section \<open>routers/v1/bids.py: cancel\_bid\<close>

datatype MessageResponse = MessageResponse string

text \<open>
  The sum \<^verbatim>\<open>auction.endDate + timedelta(minutes=5)\<close> of line 263 comes before the update and
  before the bid is cancelled.
\<close>

definition cancel_bid ::
  "db \<Rightarrow> datetime \<Rightarrow> Account \<Rightarrow> int \<Rightarrow> (HTTPException + MessageResponse) \<times> db" where
  "cancel_bid d now current_user bid_id =
     (case get_bid d bid_id of
        None \<Rightarrow> (Inl (HTTPException 404 Bid_not_found), d)
      | Some bid \<Rightarrow>
          if userID bid \<noteq> accountID current_user
          then (Inl (HTTPException 403 Only_cancel_own_bids), d)
          else if bidStatus bid \<noteq> ACTIVE
          then (Inl (HTTPException 400 (Bid_is_not_active (bidStatus bid))), d)
          else case get_auction d (bid_auctionID bid) now of
                 (None, d1) \<Rightarrow> (Inl (HTTPException 404 Auction_not_found), d1)
               | (Some auction, d1) \<Rightarrow>
                   (let time_diff = endDate auction - now
                    in if time_diff \<le> 0
                       then (Inl (HTTPException 400 Cannot_cancel_after_end), d1)
                       else
                         (let current_highest_bid = get_current_highest_bid d1 (bid_auctionID bid);
                              leading = (case current_highest_bid of
                                           None \<Rightarrow> False
                                         | Some h \<Rightarrow> userID h = accountID current_user)
                          in if leading \<and> time_diff \<le> timedelta_minutes 10
                             then (Inl (HTTPException 400 Cannot_cancel_while_leading), d1)
                             else if leading \<and> time_diff > timedelta_minutes 10
                                     \<and> datetime_add (endDate auction) (timedelta_minutes 5) = None
                             then (Inl (HTTPException 500 (Unhandled_exception OverflowError)), d1)
                             else
                               (let d2 = (if leading \<and> time_diff > timedelta_minutes 10
                                          then snd (repositories_update_auction d1 (bid_auctionID bid)
                                                 (AuctionUpdate_empty\<lparr>update_endDate :=
                                                    datetime_add (endDate auction)
                                                      (timedelta_minutes 5)\<rparr>) now now now)
                                          else d1);
                                    (success, d3) =
                                      repositories_cancel_bid d2 bid_id (accountID current_user)
                                in if \<not> success
                                   then (Inl (HTTPException 500 Failed_to_cancel_bid), d3)
                                   else (Inr (MessageResponse ''Bid cancelled successfully''), d3)))))"

section \<open>routers/v1/auctions.py: update\_auction\<close>

text \<open>
  The administrator's update. The dates are validated when both are given, the price step
  when it is given and not 0 (\<^verbatim>\<open>if auction_update.priceStep\<close>); an \<^verbatim>\<open>ONGOING\<close> auction is
  refused. The sanitising of the name goes with the name column, which is left out.
\<close>

definition routers_update_auction ::
  "db \<Rightarrow> datetime \<Rightarrow> int \<Rightarrow> AuctionUpdate \<Rightarrow> (HTTPException + Auction) \<times> db" where
  "routers_update_auction d now auction_id auction_update =
     (case get_auction d auction_id now of
        (None, d1) \<Rightarrow> (Inl (HTTPException 404 Auction_not_found), d1)
      | (Some auction, d1) \<Rightarrow>
          (let dates = (case (update_startDate auction_update, update_endDate auction_update) of
                          (Some s, Some e) \<Rightarrow> validate_date_range s e 1 30
                        | _ \<Rightarrow> (True, None));
               price = (case update_priceStep auction_update of
                          None \<Rightarrow> (True, None)
                        | Some p \<Rightarrow> if p = 0 then (True, None)
                                    else validate_price p 1000 (Some 100000000))
           in if \<not> fst dates then (Inl (HTTPException 400 (Invalid_dates (the (snd dates)))), d1)
              else if \<not> fst price then (Inl (HTTPException 400 (Invalid_price (the (snd price)))), d1)
              else if auctionStatus auction = ONGOING
              then (Inl (HTTPException 400 Cannot_update_active_auction), d1)
              else case repositories_update_auction d1 auction_id auction_update now now now of
                     (None, d2) \<Rightarrow> (Inl (HTTPException 500 Failed_to_update_auction), d2)
                   | (Some updated_auction, d2) \<Rightarrow> (Inr updated_auction, d2)))"

section \<open>Notions used to state the claims\<close>

text \<open>
  The current price in the specification's words: the maximum amount among the auction's
  \<^verbatim>\<open>ACTIVE\<close>, \<^verbatim>\<open>WINNING\<close> and \<^verbatim>\<open>WON\<close> bids, 0 if there is none. The code never computes it under
  this name; \<open>place_bid\<close> reads the first row of \<open>get_current_highest_bid\<close>.
\<close>

definition spec_currentPrice :: "db \<Rightarrow> int \<Rightarrow> int" where
  "spec_currentPrice d auction_id =
     (let leading = filter (\<lambda>b. bid_auctionID b = auction_id
                                  \<and> bidStatus b \<in> set [ACTIVE, WINNING, WON]) (bids d)
      in if leading = [] then 0 else Max (set (map bidPrice leading)))"




text \<open>
  What a run of requests may do to a bid that was stored before it: nothing, or the
  classification of the winner resolution.
\<close>

definition reclassified :: "Bid \<Rightarrow> Bid \<Rightarrow> bool" where
  "reclassified b b' \<longleftrightarrow>
     b' = b \<or> b' = b\<lparr>bidStatus := WINNING\<rparr> \<or> b' = b\<lparr>bidStatus := LOST\<rparr>"


text \<open>
  What an operation may do to a stored auction under the invariant of the data model: the
  key and the start stay, the end does not decrease, and an end after the start stays
  after the start.
\<close>

definition end_only_grows :: "Auction \<Rightarrow> Auction \<Rightarrow> bool" where
  "end_only_grows a a' \<longleftrightarrow>
     auctionID a' = auctionID a \<and> startDate a' = startDate a \<and> endDate a \<le> endDate a'
     \<and> (startDate a < endDate a \<longrightarrow> startDate a' < endDate a')"

section \<open>Sample stores\<close>

text \<open>
  Concrete data for the closed theorems below: auction 1 runs from instant 0 for two hours
  with a price step of 10000, and the accounts 1, 2 and 3 have paid its deposit.
\<close>

definition sample_auction :: Auction where
  "sample_auction =
     \<lparr>auctionID = 1, updatedAt = None, startDate = 0, endDate = 7200000000,
      priceStep = 10000, auctionStatus = ONGOING, bidWinnerID = None\<rparr>"

definition sample_payment :: "int \<Rightarrow> Payment" where
  "sample_payment u =
     \<lparr>paymentID = u, payment_auctionID = 1, payment_userID = u,
      paymentType = DEPOSIT, paymentStatus = PAYMENT_COMPLETED\<rparr>"

definition sample_account :: "int \<Rightarrow> Account" where
  "sample_account u = \<lparr>accountID = u, username = ''user'', email = ''user@example.com''\<rparr>"

definition sample_bid :: "int \<Rightarrow> int \<Rightarrow> int \<Rightarrow> BidStatus \<Rightarrow> datetime \<Rightarrow> Bid" where
  "sample_bid i u p s t =
     \<lparr>bidID = i, bid_auctionID = 1, userID = u, bidPrice = p, bidStatus = s, createdAt = t\<rparr>"

definition sample_db :: "Auction \<Rightarrow> Bid list \<Rightarrow> db" where
  "sample_db a bs =
     \<lparr>auctions = [a], bids = bs,
      payments = [sample_payment 1, sample_payment 2, sample_payment 3],
      accounts = [sample_account 1, sample_account 2, sample_account 3],
      notifications = []\<rparr>"

definition sample_request :: "int \<Rightarrow> BidCreate" where
  "sample_request p = \<lparr>create_auctionID = 1, create_bidPrice = p\<rparr>"

text \<open>No call of the notification block raises.\<close>

definition no_failure :: "step \<Rightarrow> outcome" where
  "no_failure s = Returns"

text \<open>Exactly one call of the notification block raises, in the given way.\<close>

definition fails_at :: "step \<Rightarrow> outcome \<Rightarrow> step \<Rightarrow> outcome" where
  "fails_at s0 how s = (if s = s0 then how else Returns)"

text \<open>A request whose readings of the clock are all the same instant.\<close>

definition at_instant :: "datetime \<Rightarrow> place_bid_clock" where
  "at_instant t =
     \<lparr>fetch_time = t, current_time = t, create_time = t, update_fetch_time = t,
      update_time = t, update_check_time = t, notification_time = t\<rparr>"

text \<open>
  A request that takes three seconds from its \<^verbatim>\<open>current_time\<close> on: it fetches the auction
  and checks the time at \<open>t\<close>, and reaches \<^verbatim>\<open>update_auction\<close> at \<open>t + 3000000\<close>.
\<close>

definition slow_from :: "datetime \<Rightarrow> place_bid_clock" where
  "slow_from t =
     \<lparr>fetch_time = t, current_time = t, create_time = t + 1000000,
      update_fetch_time = t + 3000000, update_time = t + 3000000,
      update_check_time = t + 3000000, notification_time = t + 3000000\<rparr>"

lemmas sample_defs =
  sample_auction_def sample_payment_def sample_account_def sample_bid_def sample_db_def
  sample_request_def no_failure_def fails_at_def at_instant_def slow_from_def

section \<open>Lemmas: the first row of an ordered query\<close>

lemma first_None_iff [simp]: "first xs = None \<longleftrightarrow> xs = []"
  by (cases xs) auto

lemma first_Some_mem: "first xs = Some x \<Longrightarrow> x \<in> set xs"
  by (cases xs) auto

lemma first_insort_key:
  "first (insort_key f x ys) =
     (case first ys of None \<Rightarrow> Some x | Some y \<Rightarrow> if f x \<le> f y then Some x else Some y)"
  by (cases ys) auto

lemma first_order_Cons:
  "first (order_by_bidPrice_desc (x # xs)) =
     (case first (order_by_bidPrice_desc xs) of
        None \<Rightarrow> Some x
      | Some y \<Rightarrow> if bidPrice y \<le> bidPrice x then Some x else Some y)"
  by (simp add: order_by_bidPrice_desc_def first_insort_key split: option.splits)

lemma order_by_bidPrice_desc_Nil [simp]: "order_by_bidPrice_desc [] = []"
  by (simp add: order_by_bidPrice_desc_def)

lemma order_by_Nil_iff [simp]: "order_by_bidPrice_desc xs = [] \<longleftrightarrow> xs = []"
  by (cases xs) (auto simp: order_by_bidPrice_desc_def dest: arg_cong[where f=length])

lemma first_order_split:
  "first (order_by_bidPrice_desc xs) = Some hb \<Longrightarrow>
     \<exists>ys zs. xs = ys @ hb # zs \<and> (\<forall>b\<in>set ys. bidPrice b < bidPrice hb)
            \<and> (\<forall>b\<in>set zs. bidPrice b \<le> bidPrice hb)"
proof (induction xs arbitrary: hb)
  case Nil
  then show ?case by (simp add: order_by_bidPrice_desc_def)
next
  case (Cons x xs)
  show ?case
  proof (cases "first (order_by_bidPrice_desc xs)")
    case None
    then have "xs = []" by simp
    with Cons.prems have "hb = x" by (simp add: order_by_bidPrice_desc_def)
    with \<open>xs = []\<close> show ?thesis by (intro exI[of _ "[]"]) simp
  next
    case (Some y)
    from Cons.IH[OF Some] obtain ys zs where
      xs: "xs = ys @ y # zs" and lt: "\<forall>b\<in>set ys. bidPrice b < bidPrice y"
      and le: "\<forall>b\<in>set zs. bidPrice b \<le> bidPrice y" by blast
    show ?thesis
    proof (cases "bidPrice y \<le> bidPrice x")
      case True
      with Cons.prems Some have "hb = x" by (simp add: first_order_Cons)
      moreover have "\<forall>b\<in>set xs. bidPrice b \<le> bidPrice x"
        using xs lt le True by fastforce
      ultimately show ?thesis by (intro exI[of _ "[]"] exI[of _ xs]) simp
    next
      case False
      with Cons.prems Some have "hb = y" by (simp add: first_order_Cons)
      then show ?thesis using xs lt le False
        by (intro exI[of _ "x # ys"] exI[of _ zs]) auto
    qed
  qed
qed

lemma first_order_max:
  assumes "first (order_by_bidPrice_desc xs) = Some hb"
  shows "hb \<in> set xs" and "\<forall>b\<in>set xs. bidPrice b \<le> bidPrice hb"
  using first_order_split[OF assms] by fastforce+

section \<open>Lemmas: reconciliation\<close>

lemma check_and_update_status_None [simp]:
  "check_and_update_status d None now = (None, d)"
  by (simp add: check_and_update_status_def)

lemma check_and_update_status_Some:
  "check_and_update_status d (Some a) now =
     (if (auctionStatus a = ONGOING \<or> auctionStatus a = SCHEDULED \<and> startDate a \<le> now)
          \<and> endDate a \<le> now
      then (case first (order_by_bidPrice_desc (active_bids d (auctionID a))) of
              None \<Rightarrow> (Some (a\<lparr>auctionStatus := COMPLETED\<rparr>),
                        commit_auction (a\<lparr>auctionStatus := COMPLETED\<rparr>) d)
            | Some hb \<Rightarrow>
                (Some (a\<lparr>auctionStatus := COMPLETED, bidWinnerID := Some (userID hb)\<rparr>),
                 commit_auction (a\<lparr>auctionStatus := COMPLETED, bidWinnerID := Some (userID hb)\<rparr>)
                   (d\<lparr>bids := mark_winner (auctionID a) hb (bids d)\<rparr>)))
      else if auctionStatus a = SCHEDULED \<and> startDate a \<le> now
      then (Some (a\<lparr>auctionStatus := ONGOING\<rparr>), commit_auction (a\<lparr>auctionStatus := ONGOING\<rparr>) d)
      else (Some a, d))"
  by (auto simp: check_and_update_status_def Let_def split: option.splits)

lemma check_and_update_status_idem:
  "check_and_update_status (snd (check_and_update_status d auction now))
     (fst (check_and_update_status d auction now)) now
   = check_and_update_status d auction now"
proof (cases auction)
  case None
  then show ?thesis by simp
next
  case (Some a)
  show ?thesis
    unfolding Some
    by (subst (3 2) check_and_update_status_Some)
       (auto simp: check_and_update_status_Some split: option.splits)
qed

lemma check_and_update_status_monotone:
  assumes "check_and_update_status d (Some a) now = (r, d')"
  shows "\<exists>a'. r = Some a' \<and>
           (auctionStatus a' = auctionStatus a
            \<or> auctionStatus a = SCHEDULED \<and> auctionStatus a' = ONGOING
            \<or> auctionStatus a = SCHEDULED \<and> auctionStatus a' = COMPLETED
            \<or> auctionStatus a = ONGOING \<and> auctionStatus a' = COMPLETED)"
  using assms by (auto simp: check_and_update_status_Some split: if_splits option.splits)

lemma check_and_update_status_no_bids:
  assumes "auctionStatus a = ONGOING \<or> auctionStatus a = SCHEDULED \<and> startDate a \<le> now"
    and "endDate a \<le> now"
    and "filter (\<lambda>b. bid_auctionID b = auctionID a) (bids d) = []"
  shows "check_and_update_status d (Some a) now =
           (Some (a\<lparr>auctionStatus := COMPLETED\<rparr>), commit_auction (a\<lparr>auctionStatus := COMPLETED\<rparr>) d)"
proof -
  have "active_bids d (auctionID a) = []"
    using assms(3) by (auto simp: active_bids_def filter_empty_conv)
  then show ?thesis using assms(1,2)
    by (simp add: check_and_update_status_Some)
qed

lemma bids_commit_auction [simp]: "bids (commit_auction a d) = bids d"
  by (simp add: commit_auction_def)

lemma mark_winner_rows:
  assumes "distinct (map bidID rows)" and "w \<in> set rows"
  shows "mark_winner auction_id w rows =
           map (\<lambda>b. if b = w then b\<lparr>bidStatus := WINNING\<rparr>
                     else if bid_auctionID b = auction_id \<and> bidStatus b = ACTIVE
                          then b\<lparr>bidStatus := LOST\<rparr>
                     else b) rows"
proof -
  have "inj_on bidID (set rows)" using assms(1) by (simp add: distinct_map)
  then have "\<And>b. b \<in> set rows \<Longrightarrow> (bidID b = bidID w) = (b = w)"
    using assms(2) by (auto dest: inj_onD)
  then show ?thesis unfolding mark_winner_def by (intro map_cong) auto
qed

section \<open>Lemmas: fetching an auction\<close>

lemma accepting_status_iff:
  "str_AuctionStatus s \<in> set [''active'', ''pending'', ''ONGOING'', ''ongoing'', ''AuctionStatus.ONGOING'']
     \<longleftrightarrow> s = ONGOING"
  by (cases s) simp_all

lemma check_and_update_status_settled:
  assumes "\<not> (auctionStatus a = SCHEDULED \<and> startDate a \<le> now)"
    and "\<not> (auctionStatus a = ONGOING \<and> endDate a \<le> now)"
  shows "check_and_update_status d (Some a) now = (Some a, d)"
  using assms by (auto simp: check_and_update_status_Some)

lemma check_and_update_status_result:
  assumes "check_and_update_status d (Some a0) now = (Some a, d1)"
  shows "auctionID a = auctionID a0" and "startDate a = startDate a0"
    and "endDate a = endDate a0" and "priceStep a = priceStep a0"
    and "\<not> (auctionStatus a = SCHEDULED \<and> startDate a \<le> now)"
    and "\<not> (auctionStatus a = ONGOING \<and> endDate a \<le> now)"
    and "(a = a0 \<and> d1 = d) \<or> auctions d1 = auctions (commit_auction a d)"
    and "payments d1 = payments d" and "accounts d1 = accounts d"
    and "notifications d1 = notifications d"
    and "auctionStatus a \<noteq> COMPLETED \<or> auctionStatus a0 = COMPLETED \<Longrightarrow> bids d1 = bids d"
  using assms
  by (auto simp: check_and_update_status_Some commit_auction_def split: if_splits option.splits)

lemma first_filter_replace:
  assumes "first (filter (\<lambda>r. auctionID r = i) rows) = Some a0" and "auctionID a = i"
  shows "first (filter (\<lambda>r. auctionID r = i)
           (map (\<lambda>r. if auctionID r = auctionID a then a else r) rows)) = Some a"
  using assms by (induction rows) (auto split: if_splits)

lemma first_filter_key:
  "first (filter (\<lambda>r. f r = i) rows) = Some a \<Longrightarrow> f a = i"
  by (induction rows) (auto split: if_splits)

lemma get_auction_None:
  "get_auction d i now = (None, d1) \<Longrightarrow> d1 = d"
  by (cases "first (filter (\<lambda>r. auctionID r = i) (auctions d))")
     (auto simp: get_auction_def check_and_update_status_Some split: if_splits option.splits)

lemma get_auction_Some:
  assumes "get_auction d i now = (Some a, d1)"
  shows "auctionID a = i"
    and "\<not> (auctionStatus a = SCHEDULED \<and> startDate a \<le> now)"
    and "\<not> (auctionStatus a = ONGOING \<and> endDate a \<le> now)"
    and "first (filter (\<lambda>r. auctionID r = i) (auctions d1)) = Some a"
    and "payments d1 = payments d" and "accounts d1 = accounts d"
    and "notifications d1 = notifications d"
proof -
  from assms obtain a0 where
    a0: "first (filter (\<lambda>r. auctionID r = i) (auctions d)) = Some a0"
    and run: "check_and_update_status d (Some a0) now = (Some a, d1)"
    by (cases "first (filter (\<lambda>r. auctionID r = i) (auctions d))")
       (auto simp: get_auction_def)
  have id0: "auctionID a0 = i" using a0 by (rule first_filter_key)
  note res = check_and_update_status_result[OF run]
  show "auctionID a = i" using res(1) id0 by simp
  then have "first (filter (\<lambda>r. auctionID r = i) (auctions (commit_auction a d))) = Some a"
    using first_filter_replace[OF a0] by (simp add: commit_auction_def)
  then show "first (filter (\<lambda>r. auctionID r = i) (auctions d1)) = Some a"
    using res(7) a0 by auto
  show "\<not> (auctionStatus a = SCHEDULED \<and> startDate a \<le> now)"
    and "\<not> (auctionStatus a = ONGOING \<and> endDate a \<le> now)"
    and "payments d1 = payments d" and "accounts d1 = accounts d"
    and "notifications d1 = notifications d"
    using res by auto
qed

lemma get_auction_settled:
  assumes "get_auction d i now = (Some a, d1)" and "auctions d2 = auctions d1"
  shows "get_auction d2 i now = (Some a, d2)"
  using get_auction_Some[OF assms(1)] assms(2)
  by (simp add: get_auction_def check_and_update_status_settled)

lemma get_auction_bids:
  assumes "get_auction d i now = (Some a, d1)" and "auctionStatus a \<noteq> COMPLETED"
  shows "bids d1 = bids d"
proof -
  from assms obtain a0 where
    run: "check_and_update_status d (Some a0) now = (Some a, d1)"
    by (cases "first (filter (\<lambda>r. auctionID r = i) (auctions d))")
       (auto simp: get_auction_def)
  from check_and_update_status_result(11)[OF run] assms(2) show ?thesis by simp
qed

lemma set_fields_endDate:
  "set_fields (AuctionUpdate_empty\<lparr>update_endDate := Some e\<rparr>) a = a\<lparr>endDate := e\<rparr>"
  by (simp add: set_fields_def AuctionUpdate_empty_def)

lemma extend_auction:
  assumes "get_auction d i fetched = (Some a, d)"
    and "\<not> (auctionStatus a = SCHEDULED \<and> startDate a \<le> checked)"
    and "checked < e"
  shows "repositories_update_auction d i (AuctionUpdate_empty\<lparr>update_endDate := Some e\<rparr>)
           fetched stamped checked
         = (Some (a\<lparr>endDate := e, updatedAt := Some stamped\<rparr>),
            commit_auction (a\<lparr>endDate := e, updatedAt := Some stamped\<rparr>) d)"
proof -
  have "check_and_update_status (commit_auction (a\<lparr>endDate := e, updatedAt := Some stamped\<rparr>) d)
          (Some (a\<lparr>endDate := e, updatedAt := Some stamped\<rparr>)) checked
        = (Some (a\<lparr>endDate := e, updatedAt := Some stamped\<rparr>),
           commit_auction (a\<lparr>endDate := e, updatedAt := Some stamped\<rparr>) d)"
    using assms(2,3) by (intro check_and_update_status_settled) auto
  then show ?thesis
    by (simp add: repositories_update_auction_def assms(1) set_fields_endDate Let_def)
qed

section \<open>Lemmas: prices, bids and rows\<close>

lemma validate_price_cap:
  "fst (validate_price price m (Some 999999999)) \<longleftrightarrow> m \<le> price \<and> price \<le> 999999999"
  by (auto simp: validate_price_def)

lemma timedelta_minutes_pos [simp]: "0 < timedelta_minutes 5" "0 < timedelta_minutes 10"
  "timedelta_minutes 5 < timedelta_minutes 10"
  by (simp_all add: timedelta_minutes_def)

lemma in_set_nonempty: "x \<in> set xs \<Longrightarrow> xs \<noteq> []"
  by auto

lemma spec_currentPrice_highest:
  "min_bid_amount auction (get_current_highest_bid d i) = spec_currentPrice d i + priceStep auction"
proof (cases "get_current_highest_bid d i")
  case None
  then show ?thesis
    by (simp add: get_current_highest_bid_def spec_currentPrice_def min_bid_amount_def)
next
  case (Some p)
  let ?rows = "filter (\<lambda>b. bid_auctionID b = i \<and> bidStatus b \<in> set [ACTIVE, WINNING, WON]) (bids d)"
  from Some have f: "first (order_by_bidPrice_desc ?rows) = Some p"
    by (simp add: get_current_highest_bid_def)
  note m = first_order_max[OF f]
  have ne: "?rows \<noteq> []" by (rule in_set_nonempty[OF m(1)])
  have "Max (set (map bidPrice ?rows)) = bidPrice p"
    using m by (intro Max_eqI) auto
  then show ?thesis using Some ne
    by (simp add: spec_currentPrice_def min_bid_amount_def Let_def del: set_simps list.set)
qed

lemma get_current_highest_bid_bids:
  "bids d' = bids d \<Longrightarrow> get_current_highest_bid d' i = get_current_highest_bid d i"
  by (simp add: get_current_highest_bid_def)

lemma spec_currentPrice_bids:
  "bids d' = bids d \<Longrightarrow> spec_currentPrice d' i = spec_currentPrice d i"
  by (simp add: spec_currentPrice_def)

lemma auctions_commit_auction:
  "auctions (commit_auction a d) = map (\<lambda>r. if auctionID r = auctionID a then a else r) (auctions d)"
  by (simp add: commit_auction_def)


lemma get_auction_bids_running:
  assumes "get_auction d i now = (Some a, d1)" and "now < endDate a"
  shows "bids d1 = bids d"
proof -
  from assms(1) obtain a0 where
    run: "check_and_update_status d (Some a0) now = (Some a, d1)"
    by (cases "first (filter (\<lambda>r. auctionID r = i) (auctions d))")
       (auto simp: get_auction_def)
  then show ?thesis using assms(2)
    by (auto simp: check_and_update_status_Some split: if_splits option.splits)
qed

lemma get_bid_bids: "bids d' = bids d \<Longrightarrow> get_bid d' i = get_bid d i"
  by (simp add: get_bid_def)

lemma repositories_cancel_bid_own:
  assumes "get_bid d bid_id = Some bid" and "userID bid = user_id"
  shows "repositories_cancel_bid d bid_id user_id =
           (True, d\<lparr>bids := map (\<lambda>b. if bidID b = bid_id then b\<lparr>bidStatus := BID_CANCELLED\<rparr> else b)
                              (bids d)\<rparr>)"
proof -
  have "bidID bid = bid_id" using assms(1) unfolding get_bid_def by (rule first_filter_key)
  then show ?thesis using assms by (simp add: repositories_cancel_bid_def)
qed

lemma get_auction_row:
  assumes "get_auction d i now = (Some a, d1)"
  obtains a0 where "first (filter (\<lambda>r. auctionID r = i) (auctions d)) = Some a0"
    and "endDate a0 = endDate a" and "startDate a0 = startDate a"
proof -
  from assms obtain a0 where
    a0: "first (filter (\<lambda>r. auctionID r = i) (auctions d)) = Some a0"
    and run: "check_and_update_status d (Some a0) now = (Some a, d1)"
    by (cases "first (filter (\<lambda>r. auctionID r = i) (auctions d))")
       (auto simp: get_auction_def)
  from check_and_update_status_result(2,3)[OF run] a0 that show thesis by simp
qed

lemma get_auction_cases:
  obtains d1 where "get_auction d i now = (None, d1)"
  | a d1 where "get_auction d i now = (Some a, d1)"
  by (cases "get_auction d i now"; cases "fst (get_auction d i now)") auto

lemma datetime_add_Some:
  "datetime_add t delta = Some e \<longleftrightarrow> e = t + delta \<and> 0 \<le> t + delta \<and> t + delta \<le> datetime_max"
  by (auto simp: datetime_add_def)

lemma datetime_add_None:
  "datetime_add t delta = None \<longleftrightarrow> t + delta < 0 \<or> datetime_max < t + delta"
  by (auto simp: datetime_add_def)

section \<open>Lemmas: the branches of cancel\_bid\<close>

lemma cancel_bid_Some:
  assumes gb: "get_bid d bid_id = Some bid"
    and own: "userID bid = accountID current_user"
    and act: "bidStatus bid = ACTIVE"
    and ga: "get_auction d (bid_auctionID bid) now = (Some auction, d1)"
  shows "cancel_bid d now current_user bid_id =
    (if endDate auction \<le> now
     then (Inl (HTTPException 400 Cannot_cancel_after_end), d1)
     else if (case get_current_highest_bid d (bid_auctionID bid) of
                None \<Rightarrow> False | Some h \<Rightarrow> userID h = accountID current_user)
     then (if endDate auction - now \<le> timedelta_minutes 10
           then (Inl (HTTPException 400 Cannot_cancel_while_leading), d1)
           else case datetime_add (endDate auction) (timedelta_minutes 5) of
                  None \<Rightarrow> (Inl (HTTPException 500 (Unhandled_exception OverflowError)), d1)
                | Some e \<Rightarrow>
                    (Inr (MessageResponse ''Bid cancelled successfully''),
                     (commit_auction (auction\<lparr>endDate := e, updatedAt := Some now\<rparr>) d1)
                     \<lparr>bids := map (\<lambda>b. if bidID b = bid_id
                                         then b\<lparr>bidStatus := BID_CANCELLED\<rparr> else b)
                                (bids d)\<rparr>))
     else (Inr (MessageResponse ''Bid cancelled successfully''),
           d1\<lparr>bids := map (\<lambda>b. if bidID b = bid_id then b\<lparr>bidStatus := BID_CANCELLED\<rparr> else b)
                         (bids d)\<rparr>))"
proof (cases "endDate auction \<le> now")
  case True
  then show ?thesis by (simp add: cancel_bid_def gb own act ga)
next
  case False
  then have run: "now < endDate auction" by simp
  have b1: "bids d1 = bids d" by (rule get_auction_bids_running[OF ga run])
  have ga1: "get_auction d1 (bid_auctionID bid) now = (Some auction, d1)"
    by (rule get_auction_settled[OF ga refl])
  have ext: "repositories_update_auction d1 (bid_auctionID bid)
        (AuctionUpdate_empty\<lparr>update_endDate := Some e\<rparr>) now now now
      = (Some (auction\<lparr>endDate := e, updatedAt := Some now\<rparr>),
         commit_auction (auction\<lparr>endDate := e, updatedAt := Some now\<rparr>) d1)"
    if "datetime_add (endDate auction) (timedelta_minutes 5) = Some e" for e
  proof (rule extend_auction[OF ga1 get_auction_Some(2)[OF ga1]])
    from that have "e = endDate auction + timedelta_minutes 5" by (simp add: datetime_add_Some)
    with run show "now < e" by (simp add: timedelta_minutes_def)
  qed
  have hb: "get_current_highest_bid d1 (bid_auctionID bid) = get_current_highest_bid d (bid_auctionID bid)"
    by (rule get_current_highest_bid_bids[OF b1])
  have c: "repositories_cancel_bid d2 bid_id (accountID current_user) =
       (True, d2\<lparr>bids := map (\<lambda>b. if bidID b = bid_id then b\<lparr>bidStatus := BID_CANCELLED\<rparr> else b)
                              (bids d)\<rparr>)"
    if "bids d2 = bids d" for d2
    using repositories_cancel_bid_own[of d2 bid_id bid "accountID current_user"] gb own that
    by (simp add: get_bid_bids[OF that])
  show ?thesis
  proof (cases "datetime_add (endDate auction) (timedelta_minutes 5)")
    case None
    then show ?thesis
      using run c[of d1] b1
      by (simp add: cancel_bid_def gb own act ga hb Let_def split: option.splits)
  next
    case (Some e)
    have "bids (commit_auction (auction\<lparr>endDate := e, updatedAt := Some now\<rparr>) d1) = bids d"
      using b1 by simp
    note c2 = c[OF this]
    show ?thesis
      using run c[of d1] b1 c2
      by (simp add: cancel_bid_def gb own act ga hb Let_def Some ext[OF Some] split: option.splits)
  qed
qed

section \<open>Lemmas: the rows of the bids\<close>

lemma fold_max_ge: "(a::int) \<le> fold max xs a \<and> (\<forall>x\<in>set xs. x \<le> fold max xs a)"
proof (induction xs arbitrary: a)
  case Nil
  then show ?case by simp
next
  case (Cons y ys)
  from Cons.IH[of "max y a"] show ?case by auto
qed

lemma next_bidID_fresh: "b \<in> set (bids d) \<Longrightarrow> bidID b < next_bidID d"
  using fold_max_ge[of 0 "map bidID (bids d)"] by (auto simp: next_bidID_def)

lemma first_filter_append_new:
  assumes "\<forall>x\<in>set xs. \<not> P x" and "P y"
  shows "first (filter P (xs @ [y])) = Some y"
proof -
  have "filter P xs = []" using assms(1) by (simp add: filter_empty_conv)
  with assms(2) show ?thesis by simp
qed

lemma reclassified_refl [simp]: "reclassified b b"
  by (simp add: reclassified_def)

lemma reclassified_trans:
  "reclassified a b \<Longrightarrow> reclassified b c \<Longrightarrow> reclassified a c"
  by (auto simp: reclassified_def)

lemma reclassified_bidID: "reclassified b b' \<Longrightarrow> bidID b' = bidID b"
  by (auto simp: reclassified_def)

lemma reclassified_rows_refl [simp]: "list_all2 reclassified rows rows"
  by (simp add: list_all2_refl)

lemma reclassified_rows_trans:
  "list_all2 reclassified xs ys \<Longrightarrow> list_all2 reclassified ys zs
     \<Longrightarrow> list_all2 reclassified xs zs"
  by (rule list_all2_trans[of reclassified reclassified reclassified])
     (auto intro: reclassified_trans)

lemma reclassified_mark_winner: "list_all2 reclassified rows (mark_winner i hb rows)"
  by (simp add: mark_winner_def list.rel_map list_all2_same reclassified_def)

lemma first_filter_reclassified:
  assumes "list_all2 reclassified xs ys"
    and "first (filter (\<lambda>b. bidID b = i) xs) = Some b"
  shows "\<exists>b'. first (filter (\<lambda>b. bidID b = i) ys) = Some b' \<and> reclassified b b'"
  using assms
proof (induction rule: list_all2_induct)
  case Nil
  then show ?case by simp
next
  case (Cons x xs y ys)
  then show ?case by (auto dest: reclassified_bidID split: if_splits)
qed

lemma check_and_update_status_rows:
  assumes "check_and_update_status d (Some a0) now = (r, d1)"
  shows "list_all2 reclassified (bids d) (bids d1)"
    and "now < endDate a0 \<Longrightarrow> bids d1 = bids d"
    and "payments d1 = payments d" and "accounts d1 = accounts d"
    and "notifications d1 = notifications d"
  using assms
  by (auto simp: check_and_update_status_Some reclassified_mark_winner commit_auction_def
           split: if_splits option.splits)

lemma get_auction_rows:
  assumes "get_auction d i now = (r, d1)"
  shows "list_all2 reclassified (bids d) (bids d1)"
    and "payments d1 = payments d" and "accounts d1 = accounts d"
    and "notifications d1 = notifications d"
proof -
  have "list_all2 reclassified (bids d) (bids d1)
      \<and> payments d1 = payments d \<and> accounts d1 = accounts d \<and> notifications d1 = notifications d"
  proof (cases "first (filter (\<lambda>r. auctionID r = i) (auctions d))")
    case None
    with assms show ?thesis by (simp add: get_auction_def)
  next
    case (Some a0)
    with assms have "check_and_update_status d (Some a0) now = (r, d1)"
      by (simp add: get_auction_def)
    from check_and_update_status_rows(1,3,4,5)[OF this] show ?thesis by simp
  qed
  then show "list_all2 reclassified (bids d) (bids d1)"
    and "payments d1 = payments d" and "accounts d1 = accounts d"
    and "notifications d1 = notifications d"
    by simp_all
qed

section \<open>Lemmas: the dates of the stored auctions\<close>

lemma end_only_grows_refl [simp]: "end_only_grows a a"
  by (simp add: end_only_grows_def)

lemma end_only_grows_trans:
  "end_only_grows a b \<Longrightarrow> end_only_grows b c \<Longrightarrow> end_only_grows a c"
  by (auto simp: end_only_grows_def)

lemma end_only_grows_rows_refl [simp]: "list_all2 end_only_grows rows rows"
  by (simp add: list_all2_refl)

lemma end_only_grows_rows_trans:
  "list_all2 end_only_grows xs ys \<Longrightarrow> list_all2 end_only_grows ys zs
     \<Longrightarrow> list_all2 end_only_grows xs zs"
  by (rule list_all2_trans[of end_only_grows end_only_grows end_only_grows])
     (auto intro: end_only_grows_trans)

lemma end_only_grows_keys:
  "list_all2 end_only_grows xs ys \<Longrightarrow> map auctionID ys = map auctionID xs"
  by (induction rule: list_all2_induct) (auto simp: end_only_grows_def)

lemma end_only_grows_commit:
  assumes "distinct (map auctionID (auctions d))"
    and "first (filter (\<lambda>r. auctionID r = i) (auctions d)) = Some a0"
    and "end_only_grows a0 a"
  shows "list_all2 end_only_grows (auctions d) (auctions (commit_auction a d))"
proof -
  have inj: "inj_on auctionID (set (auctions d))" using assms(1) by (simp add: distinct_map)
  have mem: "a0 \<in> set (auctions d)" using first_Some_mem[OF assms(2)] by simp
  have key: "auctionID a = auctionID a0" using assms(3) by (simp add: end_only_grows_def)
  have "end_only_grows r (if auctionID r = auctionID a then a else r)"
    if "r \<in> set (auctions d)" for r
  proof (cases "auctionID r = auctionID a")
    case True
    then have "r = a0" using inj that mem key by (auto dest: inj_onD)
    with True assms(3) show ?thesis by simp
  next
    case False
    then show ?thesis by simp
  qed
  then show ?thesis
    by (simp add: commit_auction_def list.rel_map list_all2_same)
qed

text \<open>Reconciling the object that is the stored row of its key.\<close>

lemma check_and_update_status_row:
  assumes "check_and_update_status d (Some a0) now = (r, d1)"
    and "first (filter (\<lambda>r. auctionID r = i) (auctions d)) = Some a0"
  shows "\<exists>a. r = Some a \<and> auctionID a = i \<and> startDate a = startDate a0
           \<and> endDate a = endDate a0
           \<and> first (filter (\<lambda>r. auctionID r = i) (auctions d1)) = Some a
           \<and> (distinct (map auctionID (auctions d))
                \<longrightarrow> list_all2 end_only_grows (auctions d) (auctions d1))"
proof -
  from check_and_update_status_monotone[OF assms(1)] obtain a where r: "r = Some a" by blast
  note res = check_and_update_status_result[OF assms(1)[unfolded r]]
  have id0: "auctionID a0 = i" using assms(2) by (rule first_filter_key)
  have i: "auctionID a = i" using res(1) id0 by simp
  have g: "end_only_grows a0 a" using res(1,2,3) by (simp add: end_only_grows_def)
  have f: "first (filter (\<lambda>r. auctionID r = i) (auctions (commit_auction a d))) = Some a"
    using first_filter_replace[OF assms(2) i] by (simp add: commit_auction_def)
  have "first (filter (\<lambda>r. auctionID r = i) (auctions d1)) = Some a"
    using res(7) f assms(2) by auto
  moreover have "list_all2 end_only_grows (auctions d) (auctions d1)"
    if "distinct (map auctionID (auctions d))"
    using res(7) end_only_grows_commit[OF that assms(2) g] by auto
  ultimately show ?thesis using r i res(2,3) by simp
qed

lemma end_only_grows_get_auction:
  assumes "distinct (map auctionID (auctions d))"
  shows "list_all2 end_only_grows (auctions d) (auctions (snd (get_auction d i now)))"
proof (cases "first (filter (\<lambda>r. auctionID r = i) (auctions d))")
  case None
  then show ?thesis by (simp add: get_auction_def)
next
  case (Some a0)
  obtain r d1 where run: "check_and_update_status d (Some a0) now = (r, d1)"
    by (cases "check_and_update_status d (Some a0) now")
  from check_and_update_status_row[OF run Some] assms
  have "list_all2 end_only_grows (auctions d) (auctions d1)" by blast
  with run Some show ?thesis by (simp add: get_auction_def)
qed

text \<open>\<^verbatim>\<open>update_auction\<close> with a new end alone, on an auction that is stored.\<close>

lemma update_auction_extend:
  assumes "first (filter (\<lambda>r. auctionID r = i) (auctions d)) = Some a0"
  shows "\<exists>a' d3. repositories_update_auction d i (AuctionUpdate_empty\<lparr>update_endDate := Some e\<rparr>)
                    t4 t5 t6 = (Some a', d3)
     \<and> auctionID a' = i \<and> startDate a' = startDate a0 \<and> endDate a' = e
     \<and> first (filter (\<lambda>r. auctionID r = i) (auctions d3)) = Some a'
     \<and> list_all2 reclassified (bids d) (bids d3)
     \<and> (t4 < endDate a0 \<and> t6 < e \<longrightarrow> bids d3 = bids d)
     \<and> payments d3 = payments d \<and> accounts d3 = accounts d
     \<and> (distinct (map auctionID (auctions d)) \<and> endDate a0 \<le> e
          \<longrightarrow> list_all2 end_only_grows (auctions d) (auctions d3))"
proof -
  obtain r4 d1 where run4: "check_and_update_status d (Some a0) t4 = (r4, d1)"
    by (cases "check_and_update_status d (Some a0) t4")
  from check_and_update_status_row[OF run4 assms] obtain a4 where
    r4: "r4 = Some a4" and a4: "auctionID a4 = i" "startDate a4 = startDate a0"
      "endDate a4 = endDate a0"
    and f4: "first (filter (\<lambda>r. auctionID r = i) (auctions d1)) = Some a4"
    and g4: "distinct (map auctionID (auctions d))
                \<longrightarrow> list_all2 end_only_grows (auctions d) (auctions d1)"
    by blast
  have ga: "get_auction d i t4 = (Some a4, d1)"
    using run4 r4 assms by (simp add: get_auction_def)
  note rows4 = check_and_update_status_rows[OF run4]
  let ?a = "a4\<lparr>endDate := e, updatedAt := Some t5\<rparr>"
  let ?d2 = "commit_auction ?a d1"
  have i: "auctionID ?a = i" using a4(1) by simp
  have f5: "first (filter (\<lambda>r. auctionID r = i) (auctions ?d2)) = Some ?a"
    using first_filter_replace[OF f4 i] by (simp add: commit_auction_def)
  obtain r6 d3 where run6: "check_and_update_status ?d2 (Some ?a) t6 = (r6, d3)"
    by (cases "check_and_update_status ?d2 (Some ?a) t6")
  from check_and_update_status_row[OF run6 f5] obtain a' where
    r6: "r6 = Some a'" and a': "auctionID a' = i" "startDate a' = startDate ?a"
      "endDate a' = endDate ?a"
    and f6: "first (filter (\<lambda>r. auctionID r = i) (auctions d3)) = Some a'"
    and g6: "distinct (map auctionID (auctions ?d2))
                \<longrightarrow> list_all2 end_only_grows (auctions ?d2) (auctions d3)"
    by blast
  note rows6 = check_and_update_status_rows[OF run6]
  have u: "repositories_update_auction d i (AuctionUpdate_empty\<lparr>update_endDate := Some e\<rparr>)
             t4 t5 t6 = (Some a', d3)"
    using run6 r6 by (simp add: repositories_update_auction_def ga set_fields_endDate Let_def)
  have rec: "list_all2 reclassified (bids d) (bids d3)"
    using rows4(1) rows6(1) by (auto intro: reclassified_rows_trans)
  have same: "bids d3 = bids d" if "t4 < endDate a0 \<and> t6 < e"
    using that rows4(2) rows6(2) by simp
  have tabs: "payments d3 = payments d" "accounts d3 = accounts d"
    using rows4(3,4) rows6(3,4) by (simp_all add: commit_auction_def)
  have grows: "list_all2 end_only_grows (auctions d) (auctions d3)"
    if h: "distinct (map auctionID (auctions d)) \<and> endDate a0 \<le> e"
  proof -
    from h g4 have one: "list_all2 end_only_grows (auctions d) (auctions d1)" by simp
    then have d1: "distinct (map auctionID (auctions d1))"
      using h by (simp add: end_only_grows_keys)
    have "end_only_grows a4 ?a" using h a4 by (auto simp: end_only_grows_def)
    from end_only_grows_commit[OF d1 f4 this]
    have two: "list_all2 end_only_grows (auctions d1) (auctions ?d2)" .
    then have "distinct (map auctionID (auctions ?d2))"
      using d1 by (simp add: end_only_grows_keys)
    with g6 have three: "list_all2 end_only_grows (auctions ?d2) (auctions d3)" by simp
    from one two three show ?thesis by (blast intro: end_only_grows_rows_trans)
  qed
  from u a' a4 f6 rec same tabs grows show ?thesis by simp
qed

section \<open>Lemmas: the branches of place\_bid\<close>

lemma send_notifications_tables [simp]:
  "bids (fst (send_notifications outcomes d now current_user bid prev)) = bids d"
  "auctions (fst (send_notifications outcomes d now current_user bid prev)) = auctions d"
  "payments (fst (send_notifications outcomes d now current_user bid prev)) = payments d"
  "accounts (fst (send_notifications outcomes d now current_user bid prev)) = accounts d"
  by (simp_all add: send_notifications_def create_notification_def Let_def split: option.splits)

lemma send_notifications_session:
  "\<forall>s. outcomes s \<noteq> Raises_in_session
     \<Longrightarrow> \<not> snd (send_notifications outcomes d now current_user bid prev)"
  by (simp add: send_notifications_def session_fails_def Let_def split: option.splits)

lemma notify_and_respond_eq:
  "notify_and_respond outcomes d3 clock current_user bid prev db_bid extended auction =
     (if snd (send_notifications outcomes d3 (notification_time clock) current_user bid prev)
      then Inl (HTTPException 500 (Unhandled_exception PendingRollbackError))
      else case get_bid d3 (bidID db_bid) of
             None \<Rightarrow> Inl (HTTPException 500 (Unhandled_exception ObjectDeletedError))
           | Some row \<Rightarrow>
               (case auction of
                  None \<Rightarrow> Inl (HTTPException 500 (Unhandled_exception AttributeError))
                | Some a \<Rightarrow>
                    Inr \<lparr>data_bid_id = bidID row, data_auction_id = bid_auctionID row,
                         data_bid_price_raw = bidPrice row, data_bid_status = bidStatus row,
                         data_is_leading = True, data_auction_extended = extended\<rparr>),
      fst (send_notifications outcomes d3 (notification_time clock) current_user bid prev))"
proof -
  have g: "get_bid (fst (send_notifications outcomes d3 (notification_time clock) current_user
             bid prev)) (bidID db_bid) = get_bid d3 (bidID db_bid)"
    by (rule get_bid_bids) simp
  show ?thesis
    unfolding notify_and_respond_def
    by (cases "send_notifications outcomes d3 (notification_time clock) current_user bid prev")
       (use g in \<open>auto split: option.splits\<close>)
qed

lemma commit_bid_eq:
  "commit_bid outcomes d1 clock current_user bid auction prev =
     (if endDate auction - current_time clock \<le> timedelta_minutes 5
      then (case datetime_add (endDate auction) (timedelta_minutes 5) of
              None \<Rightarrow> (Inl (HTTPException 500 (Unhandled_exception OverflowError)),
                        snd (create_bid d1 bid (accountID current_user) (create_time clock)))
            | Some e \<Rightarrow>
                notify_and_respond outcomes
                  (snd (repositories_update_auction
                     (snd (create_bid d1 bid (accountID current_user) (create_time clock)))
                     (create_auctionID bid) (AuctionUpdate_empty\<lparr>update_endDate := Some e\<rparr>)
                     (update_fetch_time clock) (update_time clock) (update_check_time clock)))
                  clock current_user bid prev
                  (fst (create_bid d1 bid (accountID current_user) (create_time clock))) True
                  (fst (repositories_update_auction
                     (snd (create_bid d1 bid (accountID current_user) (create_time clock)))
                     (create_auctionID bid) (AuctionUpdate_empty\<lparr>update_endDate := Some e\<rparr>)
                     (update_fetch_time clock) (update_time clock) (update_check_time clock))))
      else notify_and_respond outcomes
             (snd (create_bid d1 bid (accountID current_user) (create_time clock)))
             clock current_user bid prev
             (fst (create_bid d1 bid (accountID current_user) (create_time clock))) False
             (Some auction))"
  by (simp add: commit_bid_def Let_def split: prod.splits option.splits)

lemma create_bid_eq:
  "fst (create_bid d bid user_id now)
     = \<lparr>bidID = next_bidID d, bid_auctionID = create_auctionID bid, userID = user_id,
        bidPrice = create_bidPrice bid, bidStatus = ACTIVE, createdAt = now\<rparr>"
  "snd (create_bid d bid user_id now) = d\<lparr>bids := bids d @ [fst (create_bid d bid user_id now)]\<rparr>"
  by (simp_all add: create_bid_def Let_def)

lemma get_bid_created:
  "get_bid (snd (create_bid d bid user_id now)) (bidID (fst (create_bid d bid user_id now)))
     = Some (fst (create_bid d bid user_id now))"
proof -
  have "\<forall>x\<in>set (bids d). \<not> bidID x = next_bidID d"
    using next_bidID_fresh[of _ d] by fastforce
  from first_filter_append_new[of "bids d" "\<lambda>b. bidID b = next_bidID d", OF this]
  show ?thesis by (simp add: get_bid_def create_bid_def Let_def)
qed

text \<open>What the second part of \<open>place_bid\<close> leaves, whatever its answer.\<close>

lemma commit_bid_result:
  assumes f: "first (filter (\<lambda>r. auctionID r = create_auctionID bid) (auctions d1)) = Some auction"
    and run: "commit_bid outcomes d1 clock current_user bid auction prev = (res, d')"
    and new: "new = fst (create_bid d1 bid (accountID current_user) (create_time clock))"
  shows "list_all2 reclassified (bids d1 @ [new]) (bids d')
    \<and> payments d' = payments d1 \<and> accounts d' = accounts d1
    \<and> (distinct (map auctionID (auctions d1))
         \<longrightarrow> list_all2 end_only_grows (auctions d1) (auctions d'))
    \<and> (update_fetch_time clock < endDate auction \<and> update_check_time clock < endDate auction
         \<longrightarrow> bids d' = bids d1 @ [new])
    \<and> (\<forall>r. res = Inr r \<longrightarrow>
          (\<exists>a' row. first (filter (\<lambda>r. auctionID r = create_auctionID bid) (auctions d')) = Some a'
             \<and> endDate a' = (if endDate auction - current_time clock \<le> timedelta_minutes 5
                              then endDate auction + timedelta_minutes 5 else endDate auction)
             \<and> get_bid d' (bidID new) = Some row \<and> reclassified new row
             \<and> r = \<lparr>data_bid_id = bidID row, data_auction_id = bid_auctionID row,
                     data_bid_price_raw = bidPrice row, data_bid_status = bidStatus row,
                     data_is_leading = True,
                     data_auction_extended
                       = (endDate auction - current_time clock \<le> timedelta_minutes 5)\<rparr>))
    \<and> ((\<forall>s. outcomes s \<noteq> Raises_in_session)
        \<and> (endDate auction - current_time clock \<le> timedelta_minutes 5
             \<longrightarrow> 0 \<le> endDate auction + timedelta_minutes 5
                 \<and> endDate auction + timedelta_minutes 5 \<le> datetime_max)
         \<longrightarrow> (\<exists>r. res = Inr r))"
proof -
  let ?d2 = "snd (create_bid d1 bid (accountID current_user) (create_time clock))"
  have d2: "bids ?d2 = bids d1 @ [new]" "auctions ?d2 = auctions d1"
    "payments ?d2 = payments d1" "accounts ?d2 = accounts d1"
    by (simp_all add: new create_bid_eq(2))
  have gb2: "get_bid ?d2 (bidID new) = Some new" unfolding new by (rule get_bid_created)
  show ?thesis
  proof (cases "endDate auction - current_time clock \<le> timedelta_minutes 5")
    case False
    let ?n = "send_notifications outcomes ?d2 (notification_time clock) current_user bid prev"
    have "commit_bid outcomes d1 clock current_user bid auction prev =
        (if snd ?n then Inl (HTTPException 500 (Unhandled_exception PendingRollbackError))
         else Inr \<lparr>data_bid_id = bidID new, data_auction_id = bid_auctionID new,
                    data_bid_price_raw = bidPrice new, data_bid_status = bidStatus new,
                    data_is_leading = True, data_auction_extended = False\<rparr>, fst ?n)"
      using False by (simp add: commit_bid_eq notify_and_respond_eq get_bid_created new)
    with run have res: "res =
        (if snd ?n then Inl (HTTPException 500 (Unhandled_exception PendingRollbackError))
         else Inr \<lparr>data_bid_id = bidID new, data_auction_id = bid_auctionID new,
                    data_bid_price_raw = bidPrice new, data_bid_status = bidStatus new,
                    data_is_leading = True, data_auction_extended = False\<rparr>)"
      and d': "d' = fst ?n"
      by simp_all
    have t: "bids d' = bids d1 @ [new]" "auctions d' = auctions d1"
      "payments d' = payments d1" "accounts d' = accounts d1"
      unfolding d' by (simp_all add: d2)
    have gb: "get_bid d' (bidID new) = Some new"
      using gb2 get_bid_bids[of d' ?d2] t(1) d2(1) by simp
    have ok: "\<exists>r. res = Inr r" if "\<forall>s. outcomes s \<noteq> Raises_in_session"
      using send_notifications_session[OF that] res by simp
    have inr: "\<exists>a' row. first (filter (\<lambda>r. auctionID r = create_auctionID bid) (auctions d')) = Some a'
             \<and> endDate a' = endDate auction
             \<and> get_bid d' (bidID new) = Some row \<and> reclassified new row
             \<and> r = \<lparr>data_bid_id = bidID row, data_auction_id = bid_auctionID row,
                     data_bid_price_raw = bidPrice row, data_bid_status = bidStatus row,
                     data_is_leading = True, data_auction_extended = False\<rparr>"
      if "res = Inr r" for r
      using that res f t(2) gb
      by (intro exI[of _ auction] exI[of _ new]) (simp split: if_splits)
    from t ok inr False show ?thesis by simp
  next
    case True
    show ?thesis
    proof (cases "datetime_add (endDate auction) (timedelta_minutes 5)")
      case None
      from run True None have res: "res = Inl (HTTPException 500 (Unhandled_exception OverflowError))"
        and d': "d' = ?d2"
        by (simp_all add: commit_bid_eq)
      have "endDate auction + timedelta_minutes 5 < 0
          \<or> datetime_max < endDate auction + timedelta_minutes 5"
        using None by (simp add: datetime_add_None)
      with res d' d2 True show ?thesis by auto
    next
      case (Some e)
      then have e: "e = endDate auction + timedelta_minutes 5" by (simp add: datetime_add_Some)
      have f2: "first (filter (\<lambda>r. auctionID r = create_auctionID bid) (auctions ?d2)) = Some auction"
        using f d2(2) by simp
      from update_auction_extend[OF f2, of e "update_fetch_time clock" "update_time clock"
             "update_check_time clock"]
      obtain a' d3 where
        u: "repositories_update_auction ?d2 (create_auctionID bid)
              (AuctionUpdate_empty\<lparr>update_endDate := Some e\<rparr>)
              (update_fetch_time clock) (update_time clock) (update_check_time clock)
            = (Some a', d3)"
        and a': "endDate a' = e"
          "first (filter (\<lambda>r. auctionID r = create_auctionID bid) (auctions d3)) = Some a'"
        and rows: "list_all2 reclassified (bids ?d2) (bids d3)"
        and same: "update_fetch_time clock < endDate auction \<and> update_check_time clock < e
                     \<longrightarrow> bids d3 = bids ?d2"
        and tabs: "payments d3 = payments ?d2" "accounts d3 = accounts ?d2"
        and grows: "distinct (map auctionID (auctions ?d2)) \<and> endDate auction \<le> e
          \<longrightarrow> list_all2 end_only_grows (auctions ?d2) (auctions d3)"
        by blast
      from first_filter_reclassified[OF rows gb2[unfolded get_bid_def]]
      obtain row where gb3: "get_bid d3 (bidID new) = Some row" and rc: "reclassified new row"
        by (auto simp: get_bid_def)
      let ?n = "send_notifications outcomes d3 (notification_time clock) current_user bid prev"
      have "commit_bid outcomes d1 clock current_user bid auction prev =
          (if snd ?n then Inl (HTTPException 500 (Unhandled_exception PendingRollbackError))
           else Inr \<lparr>data_bid_id = bidID row, data_auction_id = bid_auctionID row,
                      data_bid_price_raw = bidPrice row, data_bid_status = bidStatus row,
                      data_is_leading = True, data_auction_extended = True\<rparr>, fst ?n)"
        using True Some u gb3[unfolded new]
        by (simp add: commit_bid_eq notify_and_respond_eq)
      with run have res: "res =
          (if snd ?n then Inl (HTTPException 500 (Unhandled_exception PendingRollbackError))
           else Inr \<lparr>data_bid_id = bidID row, data_auction_id = bid_auctionID row,
                      data_bid_price_raw = bidPrice row, data_bid_status = bidStatus row,
                      data_is_leading = True, data_auction_extended = True\<rparr>)"
        and d': "d' = fst ?n"
        by simp_all
      have t: "bids d' = bids d3" "auctions d' = auctions d3"
        "payments d' = payments d1" "accounts d' = accounts d1"
        unfolding d' by (simp_all add: tabs d2)
      have c1: "list_all2 reclassified (bids d1 @ [new]) (bids d')"
        using rows t(1) d2(1) by simp
      have le: "endDate auction \<le> e" "endDate auction < e"
        unfolding e by (simp_all add: less_imp_le)
      have c3: "list_all2 end_only_grows (auctions d1) (auctions d')"
        if "distinct (map auctionID (auctions d1))"
        using that grows le t(2) d2(2) by simp
      have c4: "bids d' = bids d1 @ [new]"
        if "update_fetch_time clock < endDate auction \<and> update_check_time clock < endDate auction"
        using that same le t(1) d2(1) by simp
      have gb: "get_bid d' (bidID new) = Some row"
        using gb3 get_bid_bids[of d' d3] t(1) by simp
      have ok: "\<exists>r. res = Inr r" if "\<forall>s. outcomes s \<noteq> Raises_in_session"
        using send_notifications_session[OF that] res by simp
      have inr: "\<exists>a' row. first (filter (\<lambda>r. auctionID r = create_auctionID bid) (auctions d')) = Some a'
               \<and> endDate a' = endDate auction + timedelta_minutes 5
               \<and> get_bid d' (bidID new) = Some row \<and> reclassified new row
               \<and> r = \<lparr>data_bid_id = bidID row, data_auction_id = bid_auctionID row,
                       data_bid_price_raw = bidPrice row, data_bid_status = bidStatus row,
                       data_is_leading = True, data_auction_extended = True\<rparr>"
        if "res = Inr r" for r
        using that res a' e t(2) gb rc
        by (intro exI[of _ a'] exI[of _ row]) (simp split: if_splits)
      from c1 t(3,4) c3 c4 ok inr True show ?thesis by simp
    qed
  qed
qed

lemma place_bid_None:
  assumes "get_auction d (create_auctionID bid) (fetch_time clock) = (None, d1)"
  shows "place_bid outcomes d clock current_user bid
           = (Inl (HTTPException 404 Auction_not_found), d)"
  using assms get_auction_None[OF assms] by (simp add: place_bid_def)

lemma place_bid_Some:
  assumes "get_auction d (create_auctionID bid) (fetch_time clock) = (Some auction, d1)"
  shows "place_bid outcomes d clock current_user bid =
    (if \<not> (startDate auction \<le> current_time clock \<and> current_time clock \<le> endDate auction)
     then (Inl (HTTPException 400 (Auction_not_currently_active (startDate auction))), d1)
     else if auctionStatus auction \<noteq> ONGOING
     then (Inl (HTTPException 400 (Auction_not_accepting_bids (auctionStatus auction))), d1)
     else if deposit_payment d1 (create_auctionID bid) (accountID current_user) = None
     then (Inl (HTTPException 400 Deposit_required), d1)
     else if create_bidPrice bid
               < min_bid_amount auction (get_current_highest_bid d1 (create_auctionID bid))
             \<or> create_bidPrice bid > 999999999
     then (Inl (HTTPException 400 (Bid_must_be_at_least
             (min_bid_amount auction (get_current_highest_bid d1 (create_auctionID bid))))), d1)
     else commit_bid outcomes d1 clock current_user bid auction
            (get_current_highest_bid d1 (create_auctionID bid)))"
  unfolding place_bid_def assms
  by (auto simp: accepting_status_iff validate_price_cap Let_def simp del: set_simps list.set)


lemma commit_bid_answer:
  assumes "commit_bid outcomes d1 clock current_user bid auction prev = (Inl e, d')"
  shows "\<exists>x. e = HTTPException 500 (Unhandled_exception x)"
  using assms
  by (auto simp: commit_bid_eq notify_and_respond_eq split: if_splits option.splits)

lemma end_only_grows_extend:
  assumes "distinct (map auctionID (auctions d))"
    and "get_auction d i now = (Some a, d1)"
    and "endDate a \<le> e"
  shows "list_all2 end_only_grows (auctions d)
           (auctions (commit_auction (a\<lparr>endDate := e, updatedAt := u\<rparr>) d1))"
proof -
  have one: "list_all2 end_only_grows (auctions d) (auctions d1)"
    using end_only_grows_get_auction[OF assms(1), of i now] assms(2) by simp
  then have "distinct (map auctionID (auctions d1))"
    using assms(1) by (simp add: end_only_grows_keys)
  moreover note get_auction_Some(4)[OF assms(2)]
  moreover have "end_only_grows a (a\<lparr>endDate := e, updatedAt := u\<rparr>)"
    using assms(3) by (auto simp: end_only_grows_def)
  ultimately have "list_all2 end_only_grows (auctions d1)
      (auctions (commit_auction (a\<lparr>endDate := e, updatedAt := u\<rparr>) d1))"
    by (rule end_only_grows_commit)
  with one show ?thesis by (rule end_only_grows_rows_trans)
qed

lemma end_only_grows_place_bid:
  assumes "distinct (map auctionID (auctions d))"
  shows "list_all2 end_only_grows (auctions d)
           (auctions (snd (place_bid outcomes d clock current_user bid)))"
proof (cases rule: get_auction_cases[of d "create_auctionID bid" "fetch_time clock"])
  case (1 d1)
  then show ?thesis by (simp add: place_bid_None)
next
  case (2 a d1)
  have one: "list_all2 end_only_grows (auctions d) (auctions d1)"
    using end_only_grows_get_auction[OF assms, of "create_auctionID bid" "fetch_time clock"] 2
    by simp
  then have d1: "distinct (map auctionID (auctions d1))"
    using assms by (simp add: end_only_grows_keys)
  obtain res d' where run: "commit_bid outcomes d1 clock current_user bid a
       (get_current_highest_bid d1 (create_auctionID bid)) = (res, d')"
    by (cases "commit_bid outcomes d1 clock current_user bid a
       (get_current_highest_bid d1 (create_auctionID bid))")
  from commit_bid_result[OF get_auction_Some(4)[OF 2] run refl] d1
  have "list_all2 end_only_grows (auctions d1) (auctions d')" by blast
  with one have two: "list_all2 end_only_grows (auctions d) (auctions d')"
    by (rule end_only_grows_rows_trans)
  show ?thesis
    unfolding place_bid_Some[OF 2] using one two run by simp
qed

lemma end_only_grows_cancel_bid:
  assumes "distinct (map auctionID (auctions d))"
  shows "list_all2 end_only_grows (auctions d)
           (auctions (snd (cancel_bid d now current_user bid_id)))"
proof (cases "get_bid d bid_id")
  case None
  then show ?thesis by (simp add: cancel_bid_def)
next
  case (Some bid)
  show ?thesis
  proof (cases "userID bid = accountID current_user \<and> bidStatus bid = ACTIVE")
    case False
    with Some show ?thesis by (auto simp: cancel_bid_def)
  next
    case True
    show ?thesis
    proof (cases rule: get_auction_cases[of d "bid_auctionID bid" now])
      case (1 d1)
      with get_auction_None[OF 1] Some True show ?thesis by (simp add: cancel_bid_def)
    next
      case (2 a d1)
      have one: "list_all2 end_only_grows (auctions d) (auctions d1)"
        using end_only_grows_get_auction[OF assms, of "bid_auctionID bid" now] 2 by simp
      have two: "list_all2 end_only_grows (auctions d)
          (auctions (commit_auction (a\<lparr>endDate := e, updatedAt := Some now\<rparr>) d1))"
        if "datetime_add (endDate a) (timedelta_minutes 5) = Some e" for e
      proof -
        from that have "endDate a \<le> e" by (simp add: datetime_add_Some less_imp_le)
        from end_only_grows_extend[OF assms 2 this] show ?thesis .
      qed
      show ?thesis
        unfolding cancel_bid_Some[OF Some conjunct1[OF True] conjunct2[OF True] 2]
        using one two by (simp add: auctions_commit_auction split: option.splits)
    qed
  qed
qed

section \<open>Lemmas: runs of bids\<close>






section \<open>Lemmas: the notification block\<close>

lemma notify_and_respond_outcomes:
  "bids (snd (notify_and_respond outcomes d3 clock current_user bid prev db_bid extended auction))
     = bids d3"
  "auctions (snd (notify_and_respond outcomes d3 clock current_user bid prev db_bid extended auction))
     = auctions d3"
  "\<forall>s. outcomes' s \<noteq> Raises_in_session \<Longrightarrow>
     fst (notify_and_respond outcomes d3 clock current_user bid prev db_bid extended auction)
       = fst (notify_and_respond outcomes' d3 clock current_user bid prev db_bid extended auction)
     \<or> fst (notify_and_respond outcomes d3 clock current_user bid prev db_bid extended auction)
       = Inl (HTTPException 500 (Unhandled_exception PendingRollbackError))"
  by (simp_all add: notify_and_respond_eq send_notifications_session)

lemma commit_bid_outcomes:
  "bids (snd (commit_bid outcomes d1 clock current_user bid auction prev))
     = bids (snd (commit_bid outcomes' d1 clock current_user bid auction prev))"
  "auctions (snd (commit_bid outcomes d1 clock current_user bid auction prev))
     = auctions (snd (commit_bid outcomes' d1 clock current_user bid auction prev))"
  "\<forall>s. outcomes' s \<noteq> Raises_in_session \<Longrightarrow>
     fst (commit_bid outcomes d1 clock current_user bid auction prev)
       = fst (commit_bid outcomes' d1 clock current_user bid auction prev)
     \<or> fst (commit_bid outcomes d1 clock current_user bid auction prev)
       = Inl (HTTPException 500 (Unhandled_exception PendingRollbackError))"
  by (simp_all add: commit_bid_eq notify_and_respond_outcomes split: option.splits)

lemma place_bid_outcomes:
  "bids (snd (place_bid outcomes d clock current_user bid))
     = bids (snd (place_bid outcomes' d clock current_user bid))"
  "auctions (snd (place_bid outcomes d clock current_user bid))
     = auctions (snd (place_bid outcomes' d clock current_user bid))"
  "\<forall>s. outcomes' s \<noteq> Raises_in_session \<Longrightarrow>
     fst (place_bid outcomes d clock current_user bid)
       = fst (place_bid outcomes' d clock current_user bid)
     \<or> fst (place_bid outcomes d clock current_user bid)
       = Inl (HTTPException 500 (Unhandled_exception PendingRollbackError))"
proof -
  have "bids (snd (place_bid outcomes d clock current_user bid))
     = bids (snd (place_bid outcomes' d clock current_user bid))
    \<and> auctions (snd (place_bid outcomes d clock current_user bid))
     = auctions (snd (place_bid outcomes' d clock current_user bid))
    \<and> ((\<forall>s. outcomes' s \<noteq> Raises_in_session) \<longrightarrow>
     fst (place_bid outcomes d clock current_user bid)
       = fst (place_bid outcomes' d clock current_user bid)
     \<or> fst (place_bid outcomes d clock current_user bid)
       = Inl (HTTPException 500 (Unhandled_exception PendingRollbackError)))"
  proof (cases rule: get_auction_cases[of d "create_auctionID bid" "fetch_time clock"])
    case (1 d1)
    then show ?thesis by (simp add: place_bid_None)
  next
    case (2 auction d1)
    let ?prev = "get_current_highest_bid d1 (create_auctionID bid)"
    have "bids (snd (commit_bid outcomes d1 clock current_user bid auction ?prev))
        = bids (snd (commit_bid outcomes' d1 clock current_user bid auction ?prev))"
      by (rule commit_bid_outcomes(1))
    moreover have "auctions (snd (commit_bid outcomes d1 clock current_user bid auction ?prev))
        = auctions (snd (commit_bid outcomes' d1 clock current_user bid auction ?prev))"
      by (rule commit_bid_outcomes(2))
    moreover have "fst (commit_bid outcomes d1 clock current_user bid auction ?prev)
          = fst (commit_bid outcomes' d1 clock current_user bid auction ?prev)
        \<or> fst (commit_bid outcomes d1 clock current_user bid auction ?prev)
          = Inl (HTTPException 500 (Unhandled_exception PendingRollbackError))"
      if "\<forall>s. outcomes' s \<noteq> Raises_in_session"
      using that by (rule commit_bid_outcomes(3))
    ultimately show ?thesis
      unfolding place_bid_Some[OF 2] by simp
  qed
  then show "bids (snd (place_bid outcomes d clock current_user bid))
     = bids (snd (place_bid outcomes' d clock current_user bid))"
    and "auctions (snd (place_bid outcomes d clock current_user bid))
     = auctions (snd (place_bid outcomes' d clock current_user bid))"
    and "\<forall>s. outcomes' s \<noteq> Raises_in_session \<Longrightarrow>
     fst (place_bid outcomes d clock current_user bid)
       = fst (place_bid outcomes' d clock current_user bid)
     \<or> fst (place_bid outcomes d clock current_user bid)
       = Inl (HTTPException 500 (Unhandled_exception PendingRollbackError))"
    by simp_all
qed

section \<open>Placing bids: the statuses of the bids\<close>




section \<open>Winner resolution at closing\<close>

text \<open>
  Claim C2, as the code has it. When reconciliation completes an auction (it was
  \<^verbatim>\<open>ONGOING\<close>, or \<^verbatim>\<open>SCHEDULED\<close> with its start passed, and its end has passed), and bid keys
  are unique: the auction becomes \<^verbatim>\<open>COMPLETED\<close>. If it has no \<^verbatim>\<open>ACTIVE\<close> bid, no bid changes and
  the winner reference is left as it was. Otherwise the winner \<open>w\<close> is an \<^verbatim>\<open>ACTIVE\<close> bid of
  the auction with the greatest amount; among bids with that amount it is the first row
  of the query, which is ordered by amount only (in this model the earliest stored row,
  whatever the creation timestamps). Its bidder becomes the winner reference, its row
  becomes \<^verbatim>\<open>WINNING\<close>, every other \<^verbatim>\<open>ACTIVE\<close> bid of the auction becomes \<^verbatim>\<open>LOST\<close>, and every other
  row is unchanged.
\<close>

theorem winner_resolution:
  assumes "distinct (map bidID (bids d))"
    and "auctionStatus a = ONGOING \<or> auctionStatus a = SCHEDULED \<and> startDate a \<le> now"
    and "endDate a \<le> now"
  shows "\<exists>a' d'. check_and_update_status d (Some a) now = (Some a', d')
           \<and> auctionStatus a' = COMPLETED
           \<and> (active_bids d (auctionID a) = [] \<longrightarrow>
                 bidWinnerID a' = bidWinnerID a \<and> bids d' = bids d)
           \<and> (active_bids d (auctionID a) \<noteq> [] \<longrightarrow>
                 (\<exists>w ys zs. active_bids d (auctionID a) = ys @ w # zs
                    \<and> (\<forall>b\<in>set ys. bidPrice b < bidPrice w)
                    \<and> (\<forall>b\<in>set zs. bidPrice b \<le> bidPrice w)
                    \<and> bidWinnerID a' = Some (userID w)
                    \<and> bids d' =
                        map (\<lambda>b. if b = w then b\<lparr>bidStatus := WINNING\<rparr>
                                  else if bid_auctionID b = auctionID a \<and> bidStatus b = ACTIVE
                                       then b\<lparr>bidStatus := LOST\<rparr>
                                  else b) (bids d)))"
proof (cases "first (order_by_bidPrice_desc (active_bids d (auctionID a)))")
  case None
  then have "active_bids d (auctionID a) = []" by simp
  then show ?thesis using assms(2,3) by (simp add: check_and_update_status_Some)
next
  case (Some w)
  from first_order_split[OF Some] obtain ys zs where
    split: "active_bids d (auctionID a) = ys @ w # zs"
    and lt: "\<forall>b\<in>set ys. bidPrice b < bidPrice w"
    and le: "\<forall>b\<in>set zs. bidPrice b \<le> bidPrice w" by blast
  have "w \<in> set (active_bids d (auctionID a))" using split by simp
  then have "w \<in> set (bids d)" by (simp add: active_bids_def)
  note rows = mark_winner_rows[OF assms(1) this, of "auctionID a"]
  have "check_and_update_status d (Some a) now =
          (Some (a\<lparr>auctionStatus := COMPLETED, bidWinnerID := Some (userID w)\<rparr>),
           commit_auction (a\<lparr>auctionStatus := COMPLETED, bidWinnerID := Some (userID w)\<rparr>)
             (d\<lparr>bids := mark_winner (auctionID a) w (bids d)\<rparr>))"
    using assms(2,3) Some by (simp add: check_and_update_status_Some)
  then show ?thesis using split lt le rows by auto
qed

text \<open>
  The scenario of the specification: at closing with the bids A 50000 \<^verbatim>\<open>ACTIVE\<close>, B 70000
  \<^verbatim>\<open>ACTIVE\<close> and C 60000 \<^verbatim>\<open>CANCELLED\<close>, B wins, A is \<^verbatim>\<open>LOST\<close> and C stays \<^verbatim>\<open>CANCELLED\<close>.
\<close>

theorem winner_resolution_witness:
  "distinct (map bidID (bids (sample_db sample_auction
       [sample_bid 1 1 50000 ACTIVE 10, sample_bid 2 2 70000 ACTIVE 20,
        sample_bid 3 3 60000 BID_CANCELLED 30])))
   \<and> auctionStatus sample_auction = ONGOING
   \<and> endDate sample_auction \<le> 7200000000
   \<and> active_bids (sample_db sample_auction
       [sample_bid 1 1 50000 ACTIVE 10, sample_bid 2 2 70000 ACTIVE 20,
        sample_bid 3 3 60000 BID_CANCELLED 30]) (auctionID sample_auction)
      = [sample_bid 1 1 50000 ACTIVE 10] @ sample_bid 2 2 70000 ACTIVE 20 # []
   \<and> check_and_update_status (sample_db sample_auction
       [sample_bid 1 1 50000 ACTIVE 10, sample_bid 2 2 70000 ACTIVE 20,
        sample_bid 3 3 60000 BID_CANCELLED 30]) (Some sample_auction) 7200000000
      = (Some (sample_auction\<lparr>auctionStatus := COMPLETED, bidWinnerID := Some 2\<rparr>),
         sample_db (sample_auction\<lparr>auctionStatus := COMPLETED, bidWinnerID := Some 2\<rparr>)
           [sample_bid 1 1 50000 LOST 10, sample_bid 2 2 70000 WINNING 20,
            sample_bid 3 3 60000 BID_CANCELLED 30])"
proof -
  let ?d = "sample_db sample_auction
       [sample_bid 1 1 50000 ACTIVE 10, sample_bid 2 2 70000 ACTIVE 20,
        sample_bid 3 3 60000 BID_CANCELLED 30]"
  have h1: "distinct (map bidID (bids ?d))" by (simp add: sample_defs)
  have h2: "auctionStatus sample_auction = ONGOING
              \<or> auctionStatus sample_auction = SCHEDULED \<and> startDate sample_auction \<le> 7200000000"
    by (simp add: sample_defs)
  have h3: "endDate sample_auction \<le> 7200000000" by (simp add: sample_defs)
  have run: "check_and_update_status ?d (Some sample_auction) 7200000000
      = (Some (sample_auction\<lparr>auctionStatus := COMPLETED, bidWinnerID := Some 2\<rparr>),
         sample_db (sample_auction\<lparr>auctionStatus := COMPLETED, bidWinnerID := Some 2\<rparr>)
           [sample_bid 1 1 50000 LOST 10, sample_bid 2 2 70000 WINNING 20,
            sample_bid 3 3 60000 BID_CANCELLED 30])"
    by code_simp
  have act: "active_bids ?d (auctionID sample_auction)
      = [sample_bid 1 1 50000 ACTIVE 10] @ sample_bid 2 2 70000 ACTIVE 20 # []"
    by code_simp
  from winner_resolution[OF h1 h2 h3] h1 h3 run act show ?thesis
    by (simp add: sample_defs)
qed

text \<open>
  Against claim C2 as stated. Two \<^verbatim>\<open>ACTIVE\<close> bids of 70000: bid 1 is stored first and was
  created at instant 200, bid 2 was created earlier, at instant 100. The claim makes bid 2
  the winner; the code marks bid 1 \<^verbatim>\<open>WINNING\<close>, bid 2 \<^verbatim>\<open>LOST\<close> and sets bidder 1 as winner.
  And an auction without an \<^verbatim>\<open>ACTIVE\<close> bid whose winner reference was already 7 completes
  with the reference still 7, not null.
\<close>

theorem winner_resolution_counterexample:
  "check_and_update_status
     (sample_db sample_auction [sample_bid 1 1 70000 ACTIVE 200, sample_bid 2 2 70000 ACTIVE 100])
     (Some sample_auction) 7200000000
   = (Some (sample_auction\<lparr>auctionStatus := COMPLETED, bidWinnerID := Some 1\<rparr>),
      sample_db (sample_auction\<lparr>auctionStatus := COMPLETED, bidWinnerID := Some 1\<rparr>)
        [sample_bid 1 1 70000 WINNING 200, sample_bid 2 2 70000 LOST 100])
   \<and> check_and_update_status
       (sample_db (sample_auction\<lparr>bidWinnerID := Some 7\<rparr>) [sample_bid 1 1 70000 BID_CANCELLED 200])
       (Some (sample_auction\<lparr>bidWinnerID := Some 7\<rparr>)) 7200000000
     = (Some (sample_auction\<lparr>auctionStatus := COMPLETED, bidWinnerID := Some 7\<rparr>),
        sample_db (sample_auction\<lparr>auctionStatus := COMPLETED, bidWinnerID := Some 7\<rparr>)
          [sample_bid 1 1 70000 BID_CANCELLED 200])"
  by code_simp

section \<open>Cancelling the leading bid\<close>




section \<open>Anti-snipe extension\<close>



section \<open>The dates of an auction\<close>

text \<open>
  Claim C5, as the code has it. When auction keys are unique, reconciliation (the fetch of
  an auction), bid placement (for every reading of the clock and whichever calls of the
  notification block raise) and bid cancellation, whether they succeed or fail, leave
  every stored auction with its key and its start, with an end that is not earlier than
  before, and so with its end after its start when it was. The administrator's auction
  update is not among them: it writes the dates it is given.
\<close>

theorem end_only_grows_preserved:
  assumes "distinct (map auctionID (auctions d))"
  shows "list_all2 end_only_grows (auctions d) (auctions (snd (get_auction d i now)))
    \<and> list_all2 end_only_grows (auctions d)
         (auctions (snd (place_bid outcomes d clock current_user bid)))
    \<and> list_all2 end_only_grows (auctions d)
         (auctions (snd (cancel_bid d now current_user bid_id)))"
  using end_only_grows_get_auction[OF assms] end_only_grows_place_bid[OF assms]
    end_only_grows_cancel_bid[OF assms]
  by simp

text \<open>
  Auction 1 ends at 7,200,000,000: a fetch leaves the end, a bid two minutes before it and
  a leader's cancellation 15 minutes before it each move it to 7,500,000,000.
\<close>

theorem end_only_grows_preserved_witness:
  "distinct (map auctionID (auctions (sample_db sample_auction [sample_bid 1 1 50000 ACTIVE 10])))
   \<and> list_all2 end_only_grows
        (auctions (sample_db sample_auction [sample_bid 1 1 50000 ACTIVE 10]))
        (auctions (snd (cancel_bid (sample_db sample_auction [sample_bid 1 1 50000 ACTIVE 10])
           6300000000 (sample_account 1) 1)))
   \<and> map endDate (auctions (sample_db sample_auction [sample_bid 1 1 50000 ACTIVE 10]))
        = [7200000000]
   \<and> map endDate (auctions (snd (get_auction
        (sample_db sample_auction [sample_bid 1 1 50000 ACTIVE 10]) 1 6300000000)))
        = [7200000000]
   \<and> map endDate (auctions (snd (place_bid no_failure
        (sample_db sample_auction [sample_bid 1 1 50000 ACTIVE 10]) (at_instant 7080000000)
        (sample_account 2) (sample_request 60000))))
        = [7500000000]
   \<and> map endDate (auctions (snd (cancel_bid
        (sample_db sample_auction [sample_bid 1 1 50000 ACTIVE 10])
        6300000000 (sample_account 1) 1)))
        = [7500000000]"
proof -
  let ?d = "sample_db sample_auction [sample_bid 1 1 50000 ACTIVE 10]"
  have h: "distinct (map auctionID (auctions ?d))" by (simp add: sample_defs)
  have e0: "map endDate (auctions ?d) = [7200000000]" by code_simp
  have e1: "map endDate (auctions (snd (get_auction ?d 1 6300000000))) = [7200000000]"
    by code_simp
  have e2: "map endDate (auctions (snd (place_bid no_failure ?d (at_instant 7080000000)
        (sample_account 2) (sample_request 60000)))) = [7500000000]"
    by code_simp
  have e3: "map endDate (auctions (snd (cancel_bid ?d 6300000000 (sample_account 1) 1)))
        = [7500000000]"
    by code_simp
  from end_only_grows_preserved[OF h, of 1 6300000000 no_failure "at_instant 6300000000"
         "sample_account 1" "sample_request 60000" 1]
  have "list_all2 end_only_grows (auctions ?d)
        (auctions (snd (cancel_bid ?d 6300000000 (sample_account 1) 1)))"
    by blast
  with h e0 e1 e2 e3 show ?thesis by (intro conjI)
qed

text \<open>
  Against claim C5 as stated: the administrator's update of a \<^verbatim>\<open>SCHEDULED\<close> auction (start
  3,600,000,000, end 7,200,000,000) with an end of 1,800,000,000 alone is accepted, since
  the dates are validated only when both are given. The end has decreased and is before
  the start.
\<close>

theorem auction_update_counterexample:
  "routers_update_auction
     (sample_db (sample_auction\<lparr>auctionStatus := SCHEDULED, startDate := 3600000000\<rparr>) [])
     100 1 (AuctionUpdate_empty\<lparr>update_endDate := Some 1800000000\<rparr>)
   = (Inr (sample_auction\<lparr>auctionStatus := SCHEDULED, startDate := 3600000000,
                          endDate := 1800000000, updatedAt := Some 100\<rparr>),
      sample_db (sample_auction\<lparr>auctionStatus := SCHEDULED, startDate := 3600000000,
                                endDate := 1800000000, updatedAt := Some 100\<rparr>) [])
   \<and> startDate (sample_auction\<lparr>auctionStatus := SCHEDULED, startDate := 3600000000\<rparr>)
       < endDate (sample_auction\<lparr>auctionStatus := SCHEDULED, startDate := 3600000000\<rparr>)
   \<and> endDate (sample_auction\<lparr>auctionStatus := SCHEDULED, startDate := 3600000000,
                               endDate := 1800000000, updatedAt := Some 100\<rparr>)
       < startDate (sample_auction\<lparr>auctionStatus := SCHEDULED, startDate := 3600000000,
                               endDate := 1800000000, updatedAt := Some 100\<rparr>)
   \<and> endDate (sample_auction\<lparr>auctionStatus := SCHEDULED, startDate := 3600000000,
                               endDate := 1800000000, updatedAt := Some 100\<rparr>)
       < endDate (sample_auction\<lparr>auctionStatus := SCHEDULED, startDate := 3600000000\<rparr>)"
  by code_simp

section \<open>The minimum bid\<close>

text \<open>
  Claim C6, as the code has it. For a request that reaches the price check (the auction
  exists, the handler's \<^verbatim>\<open>current_time\<close> is inside its window, its status is \<^verbatim>\<open>ONGOING\<close> and the
  bidder has paid the deposit): the minimum the handler computes is the current price (the
  maximum amount among the auction's \<^verbatim>\<open>ACTIVE\<close>, \<^verbatim>\<open>WINNING\<close> and \<^verbatim>\<open>WON\<close> bids, 0 without one) plus
  the price step; the bid is refused with ``Bid must be at least'' that minimum exactly
  when the amount is below the minimum or above 999,999,999. With a positive price step a
  bid equal to the current price is refused. A bid of at least the minimum, and one equal
  to it, that does not exceed 999,999,999 is never refused as too low, whatever minimum
  the detail would name; it is accepted when no call of the notification block fails in
  the session and the extended end, if the end is extended, is still a \<^verbatim>\<open>datetime\<close>.
\<close>

theorem place_bid_minimum:
  assumes "get_auction d (create_auctionID bid) (fetch_time clock) = (Some auction, d1)"
    and "startDate auction \<le> current_time clock" and "current_time clock \<le> endDate auction"
    and "auctionStatus auction = ONGOING"
    and "deposit_payment d1 (create_auctionID bid) (accountID current_user) \<noteq> None"
  shows "min_bid_amount auction (get_current_highest_bid d1 (create_auctionID bid))
           = spec_currentPrice d (create_auctionID bid) + priceStep auction
    \<and> (place_bid outcomes d clock current_user bid
          = (Inl (HTTPException 400 (Bid_must_be_at_least
               (spec_currentPrice d (create_auctionID bid) + priceStep auction))), d1))
        = (create_bidPrice bid < spec_currentPrice d (create_auctionID bid) + priceStep auction
           \<or> create_bidPrice bid > 999999999)
    \<and> (0 < priceStep auction
        \<and> create_bidPrice bid = spec_currentPrice d (create_auctionID bid)
        \<longrightarrow> place_bid outcomes d clock current_user bid
              = (Inl (HTTPException 400 (Bid_must_be_at_least
                   (spec_currentPrice d (create_auctionID bid) + priceStep auction))), d1))
    \<and> (spec_currentPrice d (create_auctionID bid) + priceStep auction \<le> create_bidPrice bid
        \<and> create_bidPrice bid \<le> 999999999
        \<longrightarrow> (\<forall>m d'. place_bid outcomes d clock current_user bid
                      \<noteq> (Inl (HTTPException 400 (Bid_must_be_at_least m)), d')))
    \<and> (create_bidPrice bid = spec_currentPrice d (create_auctionID bid) + priceStep auction
        \<and> create_bidPrice bid \<le> 999999999
        \<longrightarrow> (\<forall>m d'. place_bid outcomes d clock current_user bid
                      \<noteq> (Inl (HTTPException 400 (Bid_must_be_at_least m)), d')))
    \<and> (spec_currentPrice d (create_auctionID bid) + priceStep auction \<le> create_bidPrice bid
        \<and> create_bidPrice bid \<le> 999999999
        \<and> (\<forall>s. outcomes s \<noteq> Raises_in_session)
        \<and> (endDate auction - current_time clock \<le> timedelta_minutes 5
             \<longrightarrow> datetime_add (endDate auction) (timedelta_minutes 5) \<noteq> None)
        \<longrightarrow> (\<exists>r d'. place_bid outcomes d clock current_user bid = (Inr r, d')))"
proof -
  have b: "bids d1 = bids d"
    using get_auction_bids[OF assms(1)] assms(4) by simp
  have m: "min_bid_amount auction (get_current_highest_bid d1 (create_auctionID bid))
           = spec_currentPrice d (create_auctionID bid) + priceStep auction"
    unfolding spec_currentPrice_highest spec_currentPrice_bids[OF b] ..
  let ?min = "spec_currentPrice d (create_auctionID bid) + priceStep auction"
  let ?prev = "get_current_highest_bid d1 (create_auctionID bid)"
  have low: "create_bidPrice bid < ?min \<or> create_bidPrice bid > 999999999 \<Longrightarrow>
      place_bid outcomes d clock current_user bid
        = (Inl (HTTPException 400 (Bid_must_be_at_least ?min)), d1)"
    using assms(2-5) by (simp add: place_bid_Some[OF assms(1)] m)
  have high: "place_bid outcomes d clock current_user bid
        = commit_bid outcomes d1 clock current_user bid auction ?prev"
    if "?min \<le> create_bidPrice bid" "create_bidPrice bid \<le> 999999999"
    using that assms(2-5) by (auto simp: place_bid_Some[OF assms(1)] m)
  have not_low: "place_bid outcomes d clock current_user bid
        \<noteq> (Inl (HTTPException 400 (Bid_must_be_at_least k)), d')"
    if "?min \<le> create_bidPrice bid" "create_bidPrice bid \<le> 999999999" for k d'
  proof
    assume "place_bid outcomes d clock current_user bid
        = (Inl (HTTPException 400 (Bid_must_be_at_least k)), d')"
    then have "commit_bid outcomes d1 clock current_user bid auction ?prev
        = (Inl (HTTPException 400 (Bid_must_be_at_least k)), d')"
      using high[OF that] by simp
    from commit_bid_answer[OF this] show False by simp
  qed
  have ok: "\<exists>r d'. place_bid outcomes d clock current_user bid = (Inr r, d')"
    if h: "?min \<le> create_bidPrice bid" "create_bidPrice bid \<le> 999999999"
      and s: "\<forall>s. outcomes s \<noteq> Raises_in_session"
      and e: "endDate auction - current_time clock \<le> timedelta_minutes 5
             \<longrightarrow> datetime_add (endDate auction) (timedelta_minutes 5) \<noteq> None"
  proof -
    obtain res d' where run: "commit_bid outcomes d1 clock current_user bid auction ?prev = (res, d')"
      by (cases "commit_bid outcomes d1 clock current_user bid auction ?prev")
    have e': "endDate auction - current_time clock \<le> timedelta_minutes 5
             \<longrightarrow> 0 \<le> endDate auction + timedelta_minutes 5
                 \<and> endDate auction + timedelta_minutes 5 \<le> datetime_max"
      using e by (auto simp: datetime_add_None)
    from commit_bid_result[OF get_auction_Some(4)[OF assms(1)] run refl] s e'
    obtain r where "res = Inr r" by blast
    with run high[OF h] show ?thesis by simp
  qed
  have iff: "(place_bid outcomes d clock current_user bid
          = (Inl (HTTPException 400 (Bid_must_be_at_least ?min)), d1))
        = (create_bidPrice bid < ?min \<or> create_bidPrice bid > 999999999)"
  proof (cases "create_bidPrice bid < ?min \<or> create_bidPrice bid > 999999999")
    case True
    then show ?thesis using low by simp
  next
    case False
    then have "place_bid outcomes d clock current_user bid
        \<noteq> (Inl (HTTPException 400 (Bid_must_be_at_least ?min)), d1)"
      by (intro not_low) simp_all
    with False show ?thesis by simp
  qed
  show ?thesis
  proof (intro conjI impI allI)
    show "min_bid_amount auction ?prev = ?min"
      by (rule m)
    show "(place_bid outcomes d clock current_user bid
          = (Inl (HTTPException 400 (Bid_must_be_at_least ?min)), d1))
        = (create_bidPrice bid < ?min \<or> create_bidPrice bid > 999999999)"
      by (rule iff)
    show "place_bid outcomes d clock current_user bid
        = (Inl (HTTPException 400 (Bid_must_be_at_least ?min)), d1)"
      if "0 < priceStep auction
        \<and> create_bidPrice bid = spec_currentPrice d (create_auctionID bid)"
      using that by (intro low) simp
    show "place_bid outcomes d clock current_user bid
            \<noteq> (Inl (HTTPException 400 (Bid_must_be_at_least k)), d')"
      if "?min \<le> create_bidPrice bid \<and> create_bidPrice bid \<le> 999999999" for k d'
      using that by (intro not_low) simp_all
    show "place_bid outcomes d clock current_user bid
            \<noteq> (Inl (HTTPException 400 (Bid_must_be_at_least k)), d')"
      if "create_bidPrice bid = ?min \<and> create_bidPrice bid \<le> 999999999" for k d'
      using that by (intro not_low) simp_all
    show "\<exists>r d'. place_bid outcomes d clock current_user bid = (Inr r, d')"
      if "?min \<le> create_bidPrice bid \<and> create_bidPrice bid \<le> 999999999
        \<and> (\<forall>s. outcomes s \<noteq> Raises_in_session)
        \<and> (endDate auction - current_time clock \<le> timedelta_minutes 5
             \<longrightarrow> datetime_add (endDate auction) (timedelta_minutes 5) \<noteq> None)"
      using that by (intro ok) simp_all
  qed
qed

text \<open>
  The scenario of the specification: bidder 1 leads with 50000 and the price step is 10000;
  bidder 2 is refused with 50000 (``at least 60000'') and accepted with 60000.
\<close>

theorem place_bid_minimum_witness:
  "get_auction (sample_db sample_auction [sample_bid 1 1 50000 ACTIVE 50])
       (create_auctionID (sample_request 50000)) (fetch_time (at_instant 100))
     = (Some sample_auction, sample_db sample_auction [sample_bid 1 1 50000 ACTIVE 50])
   \<and> startDate sample_auction \<le> current_time (at_instant 100)
   \<and> current_time (at_instant 100) \<le> endDate sample_auction
   \<and> auctionStatus sample_auction = ONGOING
   \<and> deposit_payment (sample_db sample_auction [sample_bid 1 1 50000 ACTIVE 50])
        (create_auctionID (sample_request 50000)) (accountID (sample_account 2))
       = Some (sample_payment 2)
   \<and> 0 < priceStep sample_auction
   \<and> spec_currentPrice (sample_db sample_auction [sample_bid 1 1 50000 ACTIVE 50]) 1 = 50000
   \<and> place_bid no_failure (sample_db sample_auction [sample_bid 1 1 50000 ACTIVE 50])
        (at_instant 100) (sample_account 2) (sample_request 50000)
       = (Inl (HTTPException 400 (Bid_must_be_at_least 60000)),
          sample_db sample_auction [sample_bid 1 1 50000 ACTIVE 50])
   \<and> (\<exists>r d'. place_bid no_failure (sample_db sample_auction [sample_bid 1 1 50000 ACTIVE 50])
        (at_instant 100) (sample_account 2) (sample_request 60000) = (Inr r, d'))"
proof -
  let ?d = "sample_db sample_auction [sample_bid 1 1 50000 ACTIVE 50]"
  have g: "get_auction ?d 1 (fetch_time (at_instant 100)) = (Some sample_auction, ?d)"
    by code_simp
  have w: "startDate sample_auction \<le> current_time (at_instant 100)"
    "current_time (at_instant 100) \<le> endDate sample_auction"
    "auctionStatus sample_auction = ONGOING" "0 < priceStep sample_auction"
    by (simp_all add: sample_defs)
  have p: "deposit_payment ?d 1 (accountID (sample_account 2)) = Some (sample_payment 2)"
    by code_simp
  have c: "spec_currentPrice ?d 1 = 50000" by code_simp
  have i: "create_auctionID (sample_request 50000) = 1" "create_auctionID (sample_request 60000) = 1"
    "create_bidPrice (sample_request 50000) = 50000" "create_bidPrice (sample_request 60000) = 60000"
    "priceStep sample_auction = 10000"
    by (simp_all add: sample_defs)
  have p': "deposit_payment ?d 1 (accountID (sample_account 2)) \<noteq> None" using p by simp
  have n: "\<forall>s. no_failure s \<noteq> Raises_in_session" by (simp add: no_failure_def)
  have far: "\<not> endDate sample_auction - current_time (at_instant 100) \<le> timedelta_minutes 5"
    by code_simp
  from place_bid_minimum[of ?d "sample_request 50000" "at_instant 100" sample_auction ?d
         "sample_account 2" no_failure]
       place_bid_minimum[of ?d "sample_request 60000" "at_instant 100" sample_auction ?d
         "sample_account 2" no_failure]
       g w p p' c i n far
  show ?thesis by simp
qed

text \<open>
  Against claim C6 as stated: the leading bid is 999,995,000 and the price step 10000, so the
  minimum is 1,000,005,000. A bid of exactly that amount is refused, with the detail of a
  bid that is too low.
\<close>

theorem place_bid_minimum_counterexample:
  "spec_currentPrice (sample_db sample_auction [sample_bid 1 1 999995000 ACTIVE 50]) 1
     + priceStep sample_auction = 1000005000
   \<and> place_bid no_failure (sample_db sample_auction [sample_bid 1 1 999995000 ACTIVE 50])
        (at_instant 100) (sample_account 2) (sample_request 1000005000)
     = (Inl (HTTPException 400 (Bid_must_be_at_least 1000005000)),
        sample_db sample_auction [sample_bid 1 1 999995000 ACTIVE 50])"
  by code_simp

section \<open>Reconciliation\<close>

text \<open>
  Claim C7. Reconciling the result of a reconciliation at the same instant changes
  nothing: it returns the same auction and the same store. The status stays or moves
  forward along \<^verbatim>\<open>SCHEDULED\<close>, \<^verbatim>\<open>ONGOING\<close>, \<^verbatim>\<open>COMPLETED\<close>, never backward. An auction on that chain
  (\<^verbatim>\<open>ONGOING\<close>, or \<^verbatim>\<open>SCHEDULED\<close> with its start passed) that has no bids and whose end has passed
  becomes \<^verbatim>\<open>COMPLETED\<close>, and reconciliation sets no winner reference: every column but the
  status is as it was, so the reference is null when it was, and no bid changes.
\<close>

theorem reconcile_idempotent_monotone:
  "check_and_update_status (snd (check_and_update_status d (Some a) now))
       (fst (check_and_update_status d (Some a) now)) now
     = check_and_update_status d (Some a) now
   \<and> (\<exists>a'. fst (check_and_update_status d (Some a) now) = Some a'
          \<and> (auctionStatus a' = auctionStatus a
               \<or> auctionStatus a = SCHEDULED \<and> auctionStatus a' = ONGOING
               \<or> auctionStatus a = SCHEDULED \<and> auctionStatus a' = COMPLETED
               \<or> auctionStatus a = ONGOING \<and> auctionStatus a' = COMPLETED))
   \<and> ((auctionStatus a = ONGOING \<or> auctionStatus a = SCHEDULED \<and> startDate a \<le> now)
        \<and> endDate a \<le> now
        \<and> filter (\<lambda>b. bid_auctionID b = auctionID a) (bids d) = []
       \<longrightarrow> (\<exists>d'. check_and_update_status d (Some a) now
                     = (Some (a\<lparr>auctionStatus := COMPLETED\<rparr>), d')
                 \<and> bids d' = bids d))
   \<and> ((auctionStatus a = ONGOING \<or> auctionStatus a = SCHEDULED \<and> startDate a \<le> now)
        \<and> endDate a \<le> now
        \<and> filter (\<lambda>b. bid_auctionID b = auctionID a) (bids d) = []
        \<and> bidWinnerID a = None
       \<longrightarrow> (\<exists>a' d'. check_and_update_status d (Some a) now = (Some a', d')
                 \<and> auctionStatus a' = COMPLETED \<and> bidWinnerID a' = None))"
proof (intro conjI impI)
  show "check_and_update_status (snd (check_and_update_status d (Some a) now))
          (fst (check_and_update_status d (Some a) now)) now
        = check_and_update_status d (Some a) now"
    by (rule check_and_update_status_idem)
next
  obtain r d' where run: "check_and_update_status d (Some a) now = (r, d')"
    by (cases "check_and_update_status d (Some a) now")
  from check_and_update_status_monotone[OF run] run
  show "\<exists>a'. fst (check_and_update_status d (Some a) now) = Some a'
          \<and> (auctionStatus a' = auctionStatus a
               \<or> auctionStatus a = SCHEDULED \<and> auctionStatus a' = ONGOING
               \<or> auctionStatus a = SCHEDULED \<and> auctionStatus a' = COMPLETED
               \<or> auctionStatus a = ONGOING \<and> auctionStatus a' = COMPLETED)"
    by simp
next
  assume h: "(auctionStatus a = ONGOING \<or> auctionStatus a = SCHEDULED \<and> startDate a \<le> now)
        \<and> endDate a \<le> now
        \<and> filter (\<lambda>b. bid_auctionID b = auctionID a) (bids d) = []"
  then show "\<exists>d'. check_and_update_status d (Some a) now
                     = (Some (a\<lparr>auctionStatus := COMPLETED\<rparr>), d')
                 \<and> bids d' = bids d"
    using check_and_update_status_no_bids[of a now d] by simp
next
  assume h: "(auctionStatus a = ONGOING \<or> auctionStatus a = SCHEDULED \<and> startDate a \<le> now)
        \<and> endDate a \<le> now
        \<and> filter (\<lambda>b. bid_auctionID b = auctionID a) (bids d) = []
        \<and> bidWinnerID a = None"
  then show "\<exists>a' d'. check_and_update_status d (Some a) now = (Some a', d')
                 \<and> auctionStatus a' = COMPLETED \<and> bidWinnerID a' = None"
    using check_and_update_status_no_bids[of a now d] by simp
qed

text \<open>
  An \<^verbatim>\<open>ONGOING\<close> auction without bids, reconciled at its end: \<^verbatim>\<open>COMPLETED\<close>, the winner
  reference still null.
\<close>

theorem reconcile_idempotent_monotone_witness:
  "auctionStatus sample_auction = ONGOING
   \<and> endDate sample_auction \<le> 7200000000
   \<and> filter (\<lambda>b. bid_auctionID b = auctionID sample_auction) (bids (sample_db sample_auction [])) = []
   \<and> check_and_update_status (sample_db sample_auction []) (Some sample_auction) 7200000000
       = (Some (sample_auction\<lparr>auctionStatus := COMPLETED\<rparr>),
          sample_db (sample_auction\<lparr>auctionStatus := COMPLETED\<rparr>) [])
   \<and> bidWinnerID (sample_auction\<lparr>auctionStatus := COMPLETED\<rparr>) = None"
proof -
  have run: "check_and_update_status (sample_db sample_auction []) (Some sample_auction) 7200000000
       = (Some (sample_auction\<lparr>auctionStatus := COMPLETED\<rparr>),
          sample_db (sample_auction\<lparr>auctionStatus := COMPLETED\<rparr>) [])"
    by code_simp
  from reconcile_idempotent_monotone[of "sample_db sample_auction []" sample_auction 7200000000] run
  show ?thesis by (simp add: sample_defs)
qed

section \<open>Cancelling a bid\<close>

text \<open>
  Claim C8, as the code has it. \<open>cancel_bid\<close> answers 404 when the bid does not exist, 403 when
  the requester is not its owner and 400 when its status is not \<^verbatim>\<open>ACTIVE\<close>, each time leaving
  the store as it was; it answers 400 when the end of the auction has passed, leaving the
  store as the fetch of the auction left it. A success implies that the bid exists, is the
  requester's, was \<^verbatim>\<open>ACTIVE\<close>, and that the end of its auction has not passed; then the rows
  with the cancelled key become \<^verbatim>\<open>CANCELLED\<close> and every other bid is unchanged. After any
  failure the store is the one before the call, or that store after the lazy
  reconciliation of the bid's auction which the fetch performs (the reconciliation can
  complete the auction and resolve its winner).
\<close>

theorem cancel_bid_outcomes:
  "(get_bid d bid_id = None \<longrightarrow>
      cancel_bid d now current_user bid_id = (Inl (HTTPException 404 Bid_not_found), d))
   \<and> (\<forall>bid. get_bid d bid_id = Some bid \<and> userID bid \<noteq> accountID current_user \<longrightarrow>
         cancel_bid d now current_user bid_id = (Inl (HTTPException 403 Only_cancel_own_bids), d))
   \<and> (\<forall>bid. get_bid d bid_id = Some bid \<and> userID bid = accountID current_user
             \<and> bidStatus bid \<noteq> ACTIVE \<longrightarrow>
         cancel_bid d now current_user bid_id
           = (Inl (HTTPException 400 (Bid_is_not_active (bidStatus bid))), d))
   \<and> (\<forall>bid auction d1.
         get_bid d bid_id = Some bid \<and> userID bid = accountID current_user
         \<and> bidStatus bid = ACTIVE
         \<and> get_auction d (bid_auctionID bid) now = (Some auction, d1)
         \<and> endDate auction \<le> now \<longrightarrow>
         cancel_bid d now current_user bid_id
           = (Inl (HTTPException 400 Cannot_cancel_after_end), d1))
   \<and> (\<forall>m d'. cancel_bid d now current_user bid_id = (Inr m, d') \<longrightarrow>
         (\<exists>bid a. get_bid d bid_id = Some bid \<and> userID bid = accountID current_user
            \<and> bidStatus bid = ACTIVE
            \<and> first (filter (\<lambda>r. auctionID r = bid_auctionID bid) (auctions d)) = Some a
            \<and> now < endDate a
            \<and> bids d' = map (\<lambda>b. if bidID b = bid_id then b\<lparr>bidStatus := BID_CANCELLED\<rparr> else b)
                           (bids d)))
   \<and> (\<forall>e d'. cancel_bid d now current_user bid_id = (Inl e, d') \<longrightarrow>
         d' = d \<or> (\<exists>bid. get_bid d bid_id = Some bid
                      \<and> d' = snd (get_auction d (bid_auctionID bid) now)))"
proof (intro conjI allI impI)
  show "cancel_bid d now current_user bid_id = (Inl (HTTPException 404 Bid_not_found), d)"
    if "get_bid d bid_id = None"
    using that by (simp add: cancel_bid_def)
  show "cancel_bid d now current_user bid_id = (Inl (HTTPException 403 Only_cancel_own_bids), d)"
    if "get_bid d bid_id = Some bid \<and> userID bid \<noteq> accountID current_user" for bid
    using that by (simp add: cancel_bid_def)
  show "cancel_bid d now current_user bid_id
           = (Inl (HTTPException 400 (Bid_is_not_active (bidStatus bid))), d)"
    if "get_bid d bid_id = Some bid \<and> userID bid = accountID current_user
             \<and> bidStatus bid \<noteq> ACTIVE" for bid
    using that by (simp add: cancel_bid_def)
  show "cancel_bid d now current_user bid_id
           = (Inl (HTTPException 400 Cannot_cancel_after_end), d1)"
    if "get_bid d bid_id = Some bid \<and> userID bid = accountID current_user
         \<and> bidStatus bid = ACTIVE
         \<and> get_auction d (bid_auctionID bid) now = (Some auction, d1)
         \<and> endDate auction \<le> now" for bid auction d1
    using that by (simp add: cancel_bid_Some)
  show "\<exists>bid a. get_bid d bid_id = Some bid \<and> userID bid = accountID current_user
            \<and> bidStatus bid = ACTIVE
            \<and> first (filter (\<lambda>r. auctionID r = bid_auctionID bid) (auctions d)) = Some a
            \<and> now < endDate a
            \<and> bids d' = map (\<lambda>b. if bidID b = bid_id then b\<lparr>bidStatus := BID_CANCELLED\<rparr> else b)
                           (bids d)"
    if ok: "cancel_bid d now current_user bid_id = (Inr m, d')" for m d'
  proof -
    from ok obtain bid where gb: "get_bid d bid_id = Some bid"
      by (cases "get_bid d bid_id") (auto simp: cancel_bid_def)
    from ok gb have own: "userID bid = accountID current_user"
      by (auto simp: cancel_bid_def split: if_splits)
    from ok gb own have act: "bidStatus bid = ACTIVE"
      by (auto simp: cancel_bid_def split: if_splits)
    from ok gb own act obtain auction d1 where
      ga: "get_auction d (bid_auctionID bid) now = (Some auction, d1)"
      by (cases rule: get_auction_cases[of d "bid_auctionID bid" now])
         (auto simp: cancel_bid_def)
    from ok have run: "now < endDate auction"
      and b: "bids d' = map (\<lambda>b. if bidID b = bid_id then b\<lparr>bidStatus := BID_CANCELLED\<rparr> else b)
                           (bids d)"
      unfolding cancel_bid_Some[OF gb own act ga]
      by (auto split: if_splits option.splits)
    from get_auction_row[OF ga] obtain a0 where
      "first (filter (\<lambda>r. auctionID r = bid_auctionID bid) (auctions d)) = Some a0"
      "endDate a0 = endDate auction" by blast
    with gb own act run b show ?thesis by auto
  qed
  show "d' = d \<or> (\<exists>bid. get_bid d bid_id = Some bid
                      \<and> d' = snd (get_auction d (bid_auctionID bid) now))"
    if err: "cancel_bid d now current_user bid_id = (Inl e, d')" for e d'
  proof (cases "get_bid d bid_id")
    case None
    with err show ?thesis by (simp add: cancel_bid_def)
  next
    case (Some bid)
    show ?thesis
    proof (cases "userID bid = accountID current_user \<and> bidStatus bid = ACTIVE")
      case False
      with err Some show ?thesis by (auto simp: cancel_bid_def split: if_splits)
    next
      case True
      show ?thesis
      proof (cases rule: get_auction_cases[of d "bid_auctionID bid" now])
        case (1 d1)
        with err Some True show ?thesis by (simp add: cancel_bid_def)
      next
        case (2 a d1)
        from err have "d' = d1"
          unfolding cancel_bid_Some[OF Some conjunct1[OF True] conjunct2[OF True] 2]
          by (auto split: if_splits option.splits)
        with 2 Some show ?thesis by simp
      qed
    qed
  qed
qed

text \<open>
  Bidder 1 asks to cancel a bid that does not exist, the bid of bidder 2, an own bid that is
  already cancelled, an own bid on a completed auction after its end, and an own \<^verbatim>\<open>ACTIVE\<close>
  bid that is not leading.
\<close>

theorem cancel_bid_outcomes_witness:
  "get_bid (sample_db sample_auction
       [sample_bid 1 1 50000 ACTIVE 10, sample_bid 2 2 60000 ACTIVE 20,
        sample_bid 3 1 40000 BID_CANCELLED 5]) 9 = None
   \<and> cancel_bid (sample_db sample_auction
       [sample_bid 1 1 50000 ACTIVE 10, sample_bid 2 2 60000 ACTIVE 20,
        sample_bid 3 1 40000 BID_CANCELLED 5]) 100 (sample_account 1) 9
      = (Inl (HTTPException 404 Bid_not_found), sample_db sample_auction
       [sample_bid 1 1 50000 ACTIVE 10, sample_bid 2 2 60000 ACTIVE 20,
        sample_bid 3 1 40000 BID_CANCELLED 5])
   \<and> cancel_bid (sample_db sample_auction
       [sample_bid 1 1 50000 ACTIVE 10, sample_bid 2 2 60000 ACTIVE 20,
        sample_bid 3 1 40000 BID_CANCELLED 5]) 100 (sample_account 1) 2
      = (Inl (HTTPException 403 Only_cancel_own_bids), sample_db sample_auction
       [sample_bid 1 1 50000 ACTIVE 10, sample_bid 2 2 60000 ACTIVE 20,
        sample_bid 3 1 40000 BID_CANCELLED 5])
   \<and> cancel_bid (sample_db sample_auction
       [sample_bid 1 1 50000 ACTIVE 10, sample_bid 2 2 60000 ACTIVE 20,
        sample_bid 3 1 40000 BID_CANCELLED 5]) 100 (sample_account 1) 3
      = (Inl (HTTPException 400 (Bid_is_not_active BID_CANCELLED)), sample_db sample_auction
       [sample_bid 1 1 50000 ACTIVE 10, sample_bid 2 2 60000 ACTIVE 20,
        sample_bid 3 1 40000 BID_CANCELLED 5])
   \<and> cancel_bid (sample_db (sample_auction\<lparr>auctionStatus := COMPLETED\<rparr>)
       [sample_bid 1 1 50000 ACTIVE 10]) 7200000001 (sample_account 1) 1
      = (Inl (HTTPException 400 Cannot_cancel_after_end),
         sample_db (sample_auction\<lparr>auctionStatus := COMPLETED\<rparr>) [sample_bid 1 1 50000 ACTIVE 10])
   \<and> cancel_bid (sample_db sample_auction
       [sample_bid 1 1 50000 ACTIVE 10, sample_bid 2 2 60000 ACTIVE 20,
        sample_bid 3 1 40000 BID_CANCELLED 5]) 100 (sample_account 1) 1
      = (Inr (MessageResponse ''Bid cancelled successfully''), sample_db sample_auction
       [sample_bid 1 1 50000 BID_CANCELLED 10, sample_bid 2 2 60000 ACTIVE 20,
        sample_bid 3 1 40000 BID_CANCELLED 5])"
proof -
  let ?d = "sample_db sample_auction
       [sample_bid 1 1 50000 ACTIVE 10, sample_bid 2 2 60000 ACTIVE 20,
        sample_bid 3 1 40000 BID_CANCELLED 5]"
  let ?e = "sample_db (sample_auction\<lparr>auctionStatus := COMPLETED\<rparr>) [sample_bid 1 1 50000 ACTIVE 10]"
  have g9: "get_bid ?d 9 = None" by code_simp
  have g2: "get_bid ?d 2 = Some (sample_bid 2 2 60000 ACTIVE 20)
            \<and> userID (sample_bid 2 2 60000 ACTIVE 20) \<noteq> accountID (sample_account 1)"
    by code_simp
  have g3: "get_bid ?d 3 = Some (sample_bid 3 1 40000 BID_CANCELLED 5)
            \<and> userID (sample_bid 3 1 40000 BID_CANCELLED 5) = accountID (sample_account 1)
            \<and> bidStatus (sample_bid 3 1 40000 BID_CANCELLED 5) \<noteq> ACTIVE"
    by code_simp
  have b3: "bidStatus (sample_bid 3 1 40000 BID_CANCELLED 5) = BID_CANCELLED"
    by (simp add: sample_defs)
  have ge: "get_bid ?e 1 = Some (sample_bid 1 1 50000 ACTIVE 10)
            \<and> userID (sample_bid 1 1 50000 ACTIVE 10) = accountID (sample_account 1)
            \<and> bidStatus (sample_bid 1 1 50000 ACTIVE 10) = ACTIVE
            \<and> get_auction ?e (bid_auctionID (sample_bid 1 1 50000 ACTIVE 10)) 7200000001
                = (Some (sample_auction\<lparr>auctionStatus := COMPLETED\<rparr>), ?e)
            \<and> endDate (sample_auction\<lparr>auctionStatus := COMPLETED\<rparr>) \<le> 7200000001"
    by code_simp
  have ok: "cancel_bid ?d 100 (sample_account 1) 1
      = (Inr (MessageResponse ''Bid cancelled successfully''), sample_db sample_auction
       [sample_bid 1 1 50000 BID_CANCELLED 10, sample_bid 2 2 60000 ACTIVE 20,
        sample_bid 3 1 40000 BID_CANCELLED 5])"
    by code_simp
  from cancel_bid_outcomes[of ?d 9 100 "sample_account 1"] g9
  have r9: "cancel_bid ?d 100 (sample_account 1) 9 = (Inl (HTTPException 404 Bid_not_found), ?d)"
    by blast
  from cancel_bid_outcomes[of ?d 2 100 "sample_account 1"] g2
  have r2: "cancel_bid ?d 100 (sample_account 1) 2 = (Inl (HTTPException 403 Only_cancel_own_bids), ?d)"
    by blast
  from cancel_bid_outcomes[of ?d 3 100 "sample_account 1"] g3
  have "cancel_bid ?d 100 (sample_account 1) 3
      = (Inl (HTTPException 400 (Bid_is_not_active (bidStatus (sample_bid 3 1 40000 BID_CANCELLED 5)))), ?d)"
    by blast
  then have r3: "cancel_bid ?d 100 (sample_account 1) 3
      = (Inl (HTTPException 400 (Bid_is_not_active BID_CANCELLED)), ?d)"
    by (simp only: b3)
  from cancel_bid_outcomes[of ?e 1 7200000001 "sample_account 1"] ge
  have re: "cancel_bid ?e 7200000001 (sample_account 1) 1
      = (Inl (HTTPException 400 Cannot_cancel_after_end), ?e)"
    by blast
  from g9 r9 r2 r3 re ok show ?thesis by (intro conjI)
qed

text \<open>
  Against claim C8 as stated: the auction is still stored as \<^verbatim>\<open>ONGOING\<close> one microsecond
  after its end. The cancellation fails with status 400, and the store has changed: the
  fetch completed the auction, set its winner and marked the bid \<^verbatim>\<open>WINNING\<close>.
\<close>

theorem cancel_bid_counterexample:
  "cancel_bid (sample_db sample_auction [sample_bid 1 1 50000 ACTIVE 10]) 7200000001
       (sample_account 1) 1
     = (Inl (HTTPException 400 Cannot_cancel_after_end),
        sample_db (sample_auction\<lparr>auctionStatus := COMPLETED, bidWinnerID := Some 1\<rparr>)
          [sample_bid 1 1 50000 WINNING 10])"
  by code_simp

section \<open>Notification failures\<close>

text \<open>
  Claim C9, as far as the code goes. Whichever calls of the notification block raise, and
  however, \<open>place_bid\<close> leaves the same bids and the same auctions: the bid and the
  extension are committed before the block, and nothing in the block or after it undoes
  them. The answer is the one of a run in which no call fails in the session, or else
  status 500 from \<^verbatim>\<open>PendingRollbackError\<close>: \<^verbatim>\<open>except Exception\<close> swallows the exception but does
  not roll the session back, and the \<^verbatim>\<open>return\<close> loads the bid through it. Two runs in which no
  call fails in the session give the same answer, so an exception of the broadcast or of
  the e-mail delivery never changes the answer.
\<close>

theorem place_bid_notification_failures:
  "bids (snd (place_bid outcomes d clock current_user bid))
     = bids (snd (place_bid outcomes' d clock current_user bid))
   \<and> auctions (snd (place_bid outcomes d clock current_user bid))
       = auctions (snd (place_bid outcomes' d clock current_user bid))
   \<and> ((\<forall>s. outcomes' s \<noteq> Raises_in_session) \<longrightarrow>
         fst (place_bid outcomes d clock current_user bid)
           = fst (place_bid outcomes' d clock current_user bid)
         \<or> fst (place_bid outcomes d clock current_user bid)
           = Inl (HTTPException 500 (Unhandled_exception PendingRollbackError)))
   \<and> ((\<forall>s. outcomes s \<noteq> Raises_in_session) \<and> (\<forall>s. outcomes' s \<noteq> Raises_in_session) \<longrightarrow>
         fst (place_bid outcomes d clock current_user bid)
           = fst (place_bid outcomes' d clock current_user bid))"
proof (intro conjI impI)
  show "bids (snd (place_bid outcomes d clock current_user bid))
     = bids (snd (place_bid outcomes' d clock current_user bid))"
    by (rule place_bid_outcomes(1))
  show "auctions (snd (place_bid outcomes d clock current_user bid))
       = auctions (snd (place_bid outcomes' d clock current_user bid))"
    by (rule place_bid_outcomes(2))
  show "fst (place_bid outcomes d clock current_user bid)
           = fst (place_bid outcomes' d clock current_user bid)
         \<or> fst (place_bid outcomes d clock current_user bid)
           = Inl (HTTPException 500 (Unhandled_exception PendingRollbackError))"
    if "\<forall>s. outcomes' s \<noteq> Raises_in_session"
    using that by (rule place_bid_outcomes(3))
  show "fst (place_bid outcomes d clock current_user bid)
           = fst (place_bid outcomes' d clock current_user bid)"
    if h: "(\<forall>s. outcomes s \<noteq> Raises_in_session) \<and> (\<forall>s. outcomes' s \<noteq> Raises_in_session)"
  proof -
    have "fst (place_bid outcomes d clock current_user bid)
           = fst (place_bid outcomes' d clock current_user bid)
         \<or> fst (place_bid outcomes d clock current_user bid)
           = Inl (HTTPException 500 (Unhandled_exception PendingRollbackError))"
      using conjunct2[OF h] by (rule place_bid_outcomes(3))
    moreover have "fst (place_bid outcomes' d clock current_user bid)
           = fst (place_bid outcomes d clock current_user bid)
         \<or> fst (place_bid outcomes' d clock current_user bid)
           = Inl (HTTPException 500 (Unhandled_exception PendingRollbackError))"
      using conjunct1[OF h] by (rule place_bid_outcomes(3))
    ultimately show ?thesis by auto
  qed
qed

text \<open>
  The e-mail delivery raises: the bid of 60000, two minutes before the end, is accepted
  and stored and the end is extended, with the answer of the run without a failure.
\<close>

theorem place_bid_notification_failures_witness:
  "(\<forall>s. fails_at Send_email Raises s \<noteq> Raises_in_session)
   \<and> (\<forall>s. no_failure s \<noteq> Raises_in_session)
   \<and> fst (place_bid (fails_at Send_email Raises)
         (sample_db sample_auction [sample_bid 1 1 50000 ACTIVE 50]) (at_instant 7080000000)
         (sample_account 2) (sample_request 60000))
     = fst (place_bid no_failure
         (sample_db sample_auction [sample_bid 1 1 50000 ACTIVE 50]) (at_instant 7080000000)
         (sample_account 2) (sample_request 60000))
   \<and> place_bid (fails_at Send_email Raises)
       (sample_db sample_auction [sample_bid 1 1 50000 ACTIVE 50]) (at_instant 7080000000)
       (sample_account 2) (sample_request 60000)
     = (Inr \<lparr>data_bid_id = 2, data_auction_id = 1, data_bid_price_raw = 60000,
             data_bid_status = ACTIVE, data_is_leading = True, data_auction_extended = True\<rparr>,
        (sample_db (sample_auction\<lparr>endDate := 7500000000, updatedAt := Some 7080000000\<rparr>)
           [sample_bid 1 1 50000 ACTIVE 50, sample_bid 2 2 60000 ACTIVE 7080000000])
        \<lparr>notifications :=
           [\<lparr>notification_userID = 1, notification_auctionID = 1,
              notificationType = BID_OUTBID, notification_createdAt = 7080000000\<rparr>]\<rparr>)"
proof -
  have a: "\<forall>s. fails_at Send_email Raises s \<noteq> Raises_in_session"
    by (simp add: fails_at_def)
  have b: "\<forall>s. no_failure s \<noteq> Raises_in_session" by (simp add: no_failure_def)
  have run: "place_bid (fails_at Send_email Raises)
       (sample_db sample_auction [sample_bid 1 1 50000 ACTIVE 50]) (at_instant 7080000000)
       (sample_account 2) (sample_request 60000)
     = (Inr \<lparr>data_bid_id = 2, data_auction_id = 1, data_bid_price_raw = 60000,
             data_bid_status = ACTIVE, data_is_leading = True, data_auction_extended = True\<rparr>,
        (sample_db (sample_auction\<lparr>endDate := 7500000000, updatedAt := Some 7080000000\<rparr>)
           [sample_bid 1 1 50000 ACTIVE 50, sample_bid 2 2 60000 ACTIVE 7080000000])
        \<lparr>notifications :=
           [\<lparr>notification_userID = 1, notification_auctionID = 1,
              notificationType = BID_OUTBID, notification_createdAt = 7080000000\<rparr>]\<rparr>)"
    by code_simp
  from place_bid_notification_failures[of "fails_at Send_email Raises"
         "sample_db sample_auction [sample_bid 1 1 50000 ACTIVE 50]" "at_instant 7080000000"
         "sample_account 2" "sample_request 60000" no_failure] a b
  have "fst (place_bid (fails_at Send_email Raises)
         (sample_db sample_auction [sample_bid 1 1 50000 ACTIVE 50]) (at_instant 7080000000)
         (sample_account 2) (sample_request 60000))
     = fst (place_bid no_failure
         (sample_db sample_auction [sample_bid 1 1 50000 ACTIVE 50]) (at_instant 7080000000)
         (sample_account 2) (sample_request 60000))"
    by blast
  with a b run show ?thesis by (intro conjI)
qed

text \<open>
  Against claim C9 as stated: the commit of the outbid notification raises a database
  error. The bid of 60000 is stored and the end is extended, as in the run without a
  failure, and the request is answered with status 500, not with a success.
\<close>

theorem place_bid_notification_failures_counterexample:
  "place_bid (fails_at Create_notification Raises_in_session)
       (sample_db sample_auction [sample_bid 1 1 50000 ACTIVE 50]) (at_instant 7080000000)
       (sample_account 2) (sample_request 60000)
     = (Inl (HTTPException 500 (Unhandled_exception PendingRollbackError)),
        sample_db (sample_auction\<lparr>endDate := 7500000000, updatedAt := Some 7080000000\<rparr>)
           [sample_bid 1 1 50000 ACTIVE 50, sample_bid 2 2 60000 ACTIVE 7080000000])
   \<and> place_bid no_failure
       (sample_db sample_auction [sample_bid 1 1 50000 ACTIVE 50]) (at_instant 7080000000)
       (sample_account 2) (sample_request 60000)
     = (Inr \<lparr>data_bid_id = 2, data_auction_id = 1, data_bid_price_raw = 60000,
             data_bid_status = ACTIVE, data_is_leading = True, data_auction_extended = True\<rparr>,
        (sample_db (sample_auction\<lparr>endDate := 7500000000, updatedAt := Some 7080000000\<rparr>)
           [sample_bid 1 1 50000 ACTIVE 50, sample_bid 2 2 60000 ACTIVE 7080000000])
        \<lparr>notifications :=
           [\<lparr>notification_userID = 1, notification_auctionID = 1,
              notificationType = BID_OUTBID, notification_createdAt = 7080000000\<rparr>]\<rparr>)"
  by code_simp

section \<open>The upper bound on a bid\<close>

text \<open>
  Claim C10. A bid above 999,999,999 is never accepted. When it reaches the price check
  (the auction exists, the handler's \<^verbatim>\<open>current_time\<close> is inside its window, its status is \<^verbatim>\<open>ONGOING\<close> and the
  bidder has paid the deposit) it is refused with the detail of a bid that is too low,
  ``Bid must be at least'' the computed minimum, whatever that minimum is, also when the
  amount is above it; the detail does not name the upper bound.
\<close>

theorem place_bid_above_cap:
  assumes "create_bidPrice bid > 999999999"
  shows "(\<exists>e d'. place_bid outcomes d clock current_user bid = (Inl e, d'))
    \<and> (\<forall>auction d1.
          get_auction d (create_auctionID bid) (fetch_time clock) = (Some auction, d1)
          \<and> startDate auction \<le> current_time clock \<and> current_time clock \<le> endDate auction
          \<and> auctionStatus auction = ONGOING
          \<and> deposit_payment d1 (create_auctionID bid) (accountID current_user) \<noteq> None
          \<longrightarrow> place_bid outcomes d clock current_user bid
                = (Inl (HTTPException 400 (Bid_must_be_at_least
                     (min_bid_amount auction (get_current_highest_bid d1 (create_auctionID bid))))),
                   d1))"
proof (intro conjI allI impI)
  obtain r d1 where ga: "get_auction d (create_auctionID bid) (fetch_time clock) = (r, d1)"
    by (cases "get_auction d (create_auctionID bid) (fetch_time clock)")
  show "\<exists>e d'. place_bid outcomes d clock current_user bid = (Inl e, d')"
  proof (cases r)
    case None
    with ga show ?thesis by (simp add: place_bid_None)
  next
    case (Some auction)
    with ga assms show ?thesis by (simp add: place_bid_Some)
  qed
next
  fix auction d1
  assume "get_auction d (create_auctionID bid) (fetch_time clock) = (Some auction, d1)
          \<and> startDate auction \<le> current_time clock \<and> current_time clock \<le> endDate auction
          \<and> auctionStatus auction = ONGOING
          \<and> deposit_payment d1 (create_auctionID bid) (accountID current_user) \<noteq> None"
  with assms show "place_bid outcomes d clock current_user bid
                = (Inl (HTTPException 400 (Bid_must_be_at_least
                     (min_bid_amount auction (get_current_highest_bid d1 (create_auctionID bid))))),
                   d1)"
    by (simp add: place_bid_Some)
qed

text \<open>
  A bid of 1,000,000,000 on an auction without bids and with a price step of 10000: the
  minimum is 10000, the bid is above it, and it is refused with ``at least 10000''.
\<close>

theorem place_bid_above_cap_witness:
  "create_bidPrice (sample_request 1000000000) > 999999999
   \<and> get_auction (sample_db sample_auction []) (create_auctionID (sample_request 1000000000)) (fetch_time (at_instant 100))
       = (Some sample_auction, sample_db sample_auction [])
   \<and> startDate sample_auction \<le> current_time (at_instant 100)
   \<and> current_time (at_instant 100) \<le> endDate sample_auction
   \<and> auctionStatus sample_auction = ONGOING
   \<and> deposit_payment (sample_db sample_auction []) (create_auctionID (sample_request 1000000000))
        (accountID (sample_account 1)) = Some (sample_payment 1)
   \<and> min_bid_amount sample_auction
        (get_current_highest_bid (sample_db sample_auction []) 1) = 10000
   \<and> place_bid no_failure (sample_db sample_auction []) (at_instant 100) (sample_account 1)
        (sample_request 1000000000)
       = (Inl (HTTPException 400 (Bid_must_be_at_least 10000)), sample_db sample_auction [])"
proof -
  have c: "create_bidPrice (sample_request 1000000000) > 999999999"
    by (simp add: sample_defs)
  have g: "get_auction (sample_db sample_auction []) (create_auctionID (sample_request 1000000000)) (fetch_time (at_instant 100))
       = (Some sample_auction, sample_db sample_auction [])"
    by code_simp
  have w: "startDate sample_auction \<le> current_time (at_instant 100)
   \<and> current_time (at_instant 100) \<le> endDate sample_auction
       \<and> auctionStatus sample_auction = ONGOING"
    by (simp add: sample_defs)
  have p: "deposit_payment (sample_db sample_auction []) (create_auctionID (sample_request 1000000000))
        (accountID (sample_account 1)) = Some (sample_payment 1)"
    by code_simp
  have m: "min_bid_amount sample_auction
        (get_current_highest_bid (sample_db sample_auction []) 1) = 10000"
    by code_simp
  have i: "create_auctionID (sample_request 1000000000) = 1" by (simp add: sample_defs)
  from place_bid_above_cap[OF c, of no_failure "sample_db sample_auction []" "at_instant 100" "sample_account 1"]
    c g w p m i
  show ?thesis by simp
qed

end
